theory Spec2Isabelle
  imports Main "HOL-Library.Multiset" "HOL-Library.Char_ord" "HOL-Library.List_Lexorder"
begin

section \<open>Strings\<close>

text \<open>
  Go strings are byte sequences; they are modelled as \<open>char list\<close>. The helpers of
  package \<open>strings\<close> that the driver calls are written out for the arguments the
  driver passes. \<open>strings.ToLower\<close>, \<open>strings.EqualFold\<close> and \<open>strings.TrimSpace\<close>
  work on bytes as long as every byte is below \<open>0x80\<close>, which is the path written out
  here; on any other string they decode UTF-8 and consult the Unicode tables of the
  runtime, which are taken as the three functions of a record \<open>unicode\<close>.
\<close>

record unicode =
  unicodeToLower :: "string \<Rightarrow> string"
  unicodeEqualFold :: "string \<Rightarrow> string \<Rightarrow> bool"
  unicodeTrimSpace :: "string \<Rightarrow> string"

definition isASCII :: "string \<Rightarrow> bool" where
  "isASCII s = list_all (\<lambda>c. (of_char c :: nat) < 128) s"

text \<open>\<open>strings.Split(s, sep)\<close> for a one-byte separator: always at least one segment.\<close>

fun Split :: "string \<Rightarrow> char \<Rightarrow> string list" where
  "Split [] c = [[]]"
| "Split (x # xs) c =
     (if x = c then [] # Split xs c
      else (case Split xs c of s # ss \<Rightarrow> (x # s) # ss | [] \<Rightarrow> [[x]]))"

definition toLowerChar :: "char \<Rightarrow> char" where
  "toLowerChar c =
     (if 65 \<le> (of_char c :: nat) \<and> (of_char c :: nat) \<le> 90
      then char_of ((of_char c :: nat) + 32) else c)"

definition ToLower :: "unicode \<Rightarrow> string \<Rightarrow> string" where
  "ToLower u s = (if isASCII s then map toLowerChar s else unicodeToLower u s)"

definition EqualFold :: "unicode \<Rightarrow> string \<Rightarrow> string \<Rightarrow> bool" where
  "EqualFold u s t =
     (if isASCII s \<and> isASCII t then map toLowerChar s = map toLowerChar t
      else unicodeEqualFold u s t)"

definition HasPrefix :: "string \<Rightarrow> string \<Rightarrow> bool" where
  "HasPrefix s p = (take (length p) s = p)"

text \<open>\<open>strings.Contains(s, sub)\<close>.\<close>

fun Contains :: "string \<Rightarrow> string \<Rightarrow> bool" where
  "Contains [] sub = (sub = [])"
| "Contains (x # xs) sub = (HasPrefix (x # xs) sub \<or> Contains xs sub)"

text \<open>
  \<open>strings.Replace(s, "--", "-", -1)\<close>: one left-to-right pass over non-overlapping
  occurrences; the scan resumes after the two bytes it replaced.
\<close>

fun ReplaceDashes :: "string \<Rightarrow> string" where
  "ReplaceDashes (a # b # xs) =
     (if a = CHR ''-'' \<and> b = CHR ''-'' then CHR ''-'' # ReplaceDashes xs
      else a # ReplaceDashes (b # xs))"
| "ReplaceDashes xs = xs"

definition isSpace :: "char \<Rightarrow> bool" where
  "isSpace c = (c \<in> set [CHR '' '', CHR 0x09, CHR 0x0A, CHR 0x0B, CHR 0x0C, CHR 0x0D])"

definition TrimSpace :: "unicode \<Rightarrow> string \<Rightarrow> string" where
  "TrimSpace u s =
     (if isASCII s then rev (dropWhile isSpace (rev (dropWhile isSpace s)))
      else unicodeTrimSpace u s)"

text \<open>\<open>strings.Join\<close> with the separator \<open>#\<close>.\<close>

fun Join :: "string list \<Rightarrow> char \<Rightarrow> string" where
  "Join [] c = []"
| "Join [s] c = s"
| "Join (s # t # ss) c = s @ c # Join (t # ss) c"

section \<open>Errors\<close>

datatype code = InvalidArgument | Aborted | Internal

datatype error =
    Status code string
  | ErrNotExist
  | ErrCorruptedMnt
  | ErrOther string
  | ErrParseVolumeID string
  | ErrNoContainerName string
  | ErrNoKey string string error
  | ErrKubeClientNil string
  | ErrGetSecret string error
  | ErrMountFailed error string

datatype panic = IndexOutOfRange | SliceBoundsOutOfRange

text \<open>\<open>os.IsNotExist\<close> and \<open>mount.IsCorruptedMnt\<close> classify the errors of the host.\<close>

fun IsNotExist :: "error \<Rightarrow> bool" where
  "IsNotExist ErrNotExist = True"
| "IsNotExist _ = False"

fun IsCorruptedMnt :: "error \<Rightarrow> bool" where
  "IsCorruptedMnt ErrCorruptedMnt = True"
| "IsCorruptedMnt _ = False"

section \<open>Constants of the driver\<close>

abbreviation separator :: char where "separator \<equiv> CHR ''#''"
abbreviation serverNameField :: string where "serverNameField \<equiv> ''server''"
abbreviation storageEndpointSuffixField :: string where
  "storageEndpointSuffixField \<equiv> ''storageendpointsuffix''"
abbreviation protocolField :: string where "protocolField \<equiv> ''protocol''"
abbreviation accountNameField :: string where "accountNameField \<equiv> ''accountname''"
abbreviation accountKeyField :: string where "accountKeyField \<equiv> ''accountkey''"
abbreviation storageAccountField :: string where "storageAccountField \<equiv> ''storageaccount''"
abbreviation secretNameField :: string where "secretNameField \<equiv> ''secretname''"
abbreviation secretNamespaceField :: string where "secretNamespaceField \<equiv> ''secretnamespace''"
abbreviation containerNameField :: string where "containerNameField \<equiv> ''containername''"
abbreviation isHnsEnabledField :: string where "isHnsEnabledField \<equiv> ''ishnsenabled''"
abbreviation getAccountKeyFromSecretField :: string where
  "getAccountKeyFromSecretField \<equiv> ''getaccountkeyfromsecret''"
abbreviation keyVaultURLField :: string where "keyVaultURLField \<equiv> ''keyvaulturl''"
abbreviation keyVaultSecretNameField :: string where
  "keyVaultSecretNameField \<equiv> ''keyvaultsecretname''"
abbreviation keyVaultSecretVersionField :: string where
  "keyVaultSecretVersionField \<equiv> ''keyvaultsecretversion''"
abbreviation storageAccountNameField :: string where
  "storageAccountNameField \<equiv> ''storageaccountname''"
abbreviation ephemeralField :: string where "ephemeralField \<equiv> ''csi.storage.k8s.io/ephemeral''"
abbreviation mountOptionsField :: string where "mountOptionsField \<equiv> ''mountoptions''"
abbreviation trueValue :: string where "trueValue \<equiv> ''true''"
abbreviation defaultSecretAccountName :: string where
  "defaultSecretAccountName \<equiv> ''azurestorageaccountname''"
abbreviation defaultSecretAccountKey :: string where
  "defaultSecretAccountKey \<equiv> ''azurestorageaccountkey''"
abbreviation fuse :: string where "fuse \<equiv> ''fuse''"
abbreviation nfs :: string where "nfs \<equiv> ''nfs''"
abbreviation containerNameMinLength :: nat where "containerNameMinLength \<equiv> 3"
abbreviation containerNameMaxLength :: nat where "containerNameMaxLength \<equiv> 63"

section \<open>Volume identity\<close>

text \<open>
  \<open>GetContainerInfo\<close>: split the volume id on \<open>#\<close>; fewer than three segments is an
  error, otherwise the first three segments are returned.
\<close>

definition GetContainerInfo :: "string \<Rightarrow> error + (string \<times> string \<times> string)" where
  "GetContainerInfo id' =
     (let segments = Split id' separator in
      if length segments < 3 then Inl (ErrParseVolumeID id')
      else Inr (segments ! 0, segments ! 1, segments ! 2))"

section \<open>Container names\<close>

text \<open>
  \<open>checkContainerNameBeginAndEnd\<close> indexes the first and the last byte of its argument;
  on the empty string the index expression \<open>containerName[0]\<close> panics.
\<close>

definition isLowerOrDigit :: "char \<Rightarrow> bool" where
  "isLowerOrDigit c =
     ((97 \<le> (of_char c :: nat) \<and> (of_char c :: nat) \<le> 122) \<or>
      (48 \<le> (of_char c :: nat) \<and> (of_char c :: nat) \<le> 57))"

definition checkContainerNameBeginAndEnd :: "string \<Rightarrow> panic + bool" where
  "checkContainerNameBeginAndEnd containerName =
     (let length' = length containerName in
      if containerName = [] then Inl IndexOutOfRange
      else Inr (isLowerOrDigit (containerName ! 0) \<and> isLowerOrDigit (containerName ! (length' - 1))))"

text \<open>
  \<open>GenerateVolumeName\<close> of the Kubernetes volume utilities, which the driver calls with
  the prefix \<open>pvc-<protocol>\<close>, a fresh UUID string and the length 63: the prefix
  \<open><clusterName>-dynamic\<close> is cut so that the whole name fits.
\<close>

definition GenerateVolumeName :: "string \<Rightarrow> string \<Rightarrow> nat \<Rightarrow> panic + string" where
  "GenerateVolumeName clusterName pvName maxLength =
     (let prefix' = clusterName @ ''-dynamic'';
          pvLen = length pvName in
      if pvLen + 1 + length prefix' > maxLength then
        (if maxLength < pvLen + 1 then Inl SliceBoundsOutOfRange
         else Inr (take (maxLength - pvLen - 1) prefix' @ ''-'' @ pvName))
      else Inr (prefix' @ ''-'' @ pvName))"

text \<open>
  \<open>getValidContainerName\<close>. The string \<open>newUUID\<close> stands for the value of
  \<open>uuid.NewUUID().String()\<close> that the call would draw. The condition of the \<open>if\<close> is
  evaluated left to right: the begin/end check runs before the length test.
\<close>

definition getValidContainerName ::
  "unicode \<Rightarrow> string \<Rightarrow> string \<Rightarrow> string \<Rightarrow> panic + string" where
  "getValidContainerName u newUUID volumeName protocol =
     (let containerName = ToLower u volumeName;
          containerName = (if length containerName > containerNameMaxLength
                           then take containerNameMaxLength containerName else containerName) in
      case checkContainerNameBeginAndEnd containerName of
        Inl p \<Rightarrow> Inl p
      | Inr ok \<Rightarrow>
          if \<not> ok \<or> length containerName < containerNameMinLength then
            (case GenerateVolumeName (''pvc-'' @ protocol) newUUID 63 of
               Inl p \<Rightarrow> Inl p
             | Inr generated \<Rightarrow> Inr (ReplaceDashes generated))
          else Inr (ReplaceDashes containerName))"

text \<open>\<open>isSASToken\<close>: the key contains the marker \<open>?sv=\<close>.\<close>

definition isSASToken :: "string \<Rightarrow> bool" where
  "isSASToken key = Contains key ''?sv=''"

section \<open>Mount options\<close>

text \<open>
  \<open>appendDefaultMountOptions\<close> builds a Go map of five defaults and ranges over it
  twice. The order in which a \<open>range\<close> statement visits a map is chosen by the runtime
  and differs from one loop to the next, so each loop takes the order of its visit as an
  argument: a list of the map's keys.
\<close>

definition defaultMountOptions :: "string \<Rightarrow> string \<Rightarrow> (string \<times> string) list" where
  "defaultMountOptions tmpPath containerName =
     [(''--pre-mount-validate'', ''true''),
      (''--use-https'', ''true''),
      (''--tmp-path'', tmpPath),
      (''--container-name'', containerName),
      (''--cancel-list-on-mount-seconds'', ''60'')]"

definition defaultKeys :: "string list" where
  "defaultKeys = map fst (defaultMountOptions [] [])"

text \<open>A visit order of the defaults map: each of its keys once.\<close>

definition rangeOrder :: "string list \<Rightarrow> bool" where
  "rangeOrder ks = (mset ks = mset defaultKeys)"

definition markIncluded :: "string list \<Rightarrow> string list \<Rightarrow> string set" where
  "markIncluded visit1 mountOptions =
     fold (\<lambda>mountOption included.
             fold (\<lambda>k inc. if HasPrefix mountOption k then insert k inc else inc) visit1 included)
          mountOptions {}"

definition appendDefaultMountOptions ::
  "string list \<Rightarrow> string list \<Rightarrow> string list \<Rightarrow> string \<Rightarrow> string \<Rightarrow> string list" where
  "appendDefaultMountOptions visit1 visit2 mountOptions tmpPath containerName =
     (let included = markIncluded visit1 mountOptions in
      fold (\<lambda>k allMountOptions.
              case map_of (defaultMountOptions tmpPath containerName) k of
                None \<Rightarrow> allMountOptions
              | Some v \<Rightarrow>
                  if k \<notin> included then
                    (if v \<noteq> [] then allMountOptions @ [k @ ''='' @ v]
                     else allMountOptions @ [k])
                  else allMountOptions)
           visit2 mountOptions)"

section \<open>The node and its external capabilities\<close>

text \<open>
  The driver reaches the host file system, the mount helper, the key vault, the secret
  store and the cloud account resolver through calls whose code is outside the driver.
  Each call is recorded in a log, and each capability answers as a function of the log
  so far and of its arguments, so that an answer may depend on everything the driver
  did before (a path is a mount point after a mount call, and so on).
\<close>

datatype call =
    IsLikelyNotMountPoint_call string
  | PathExists_call string
  | ReadDir_call string
  | Unmount_call string
  | MakeDir_call string
  | Remove_call string
  | Chmod_call string
  | MountSensitive_call string string "string list"
  | DialProxy_call
  | MountAzureBlob_call string "string list"
  | ExecBlobfuse_call "string list" "string list"
  | KeyVaultSecret_call string string string
  | GetSecret_call string string
  | GetStorageAccesskey_call string string

record environment =
  isLikelyNotMountPoint :: "call list \<Rightarrow> string \<Rightarrow> bool \<times> error option"
  pathExists :: "call list \<Rightarrow> string \<Rightarrow> bool \<times> error option"
  readDir :: "call list \<Rightarrow> string \<Rightarrow> error option"
  unmount :: "call list \<Rightarrow> string \<Rightarrow> error option"
  makeDir :: "call list \<Rightarrow> string \<Rightarrow> error option"
  osRemove :: "call list \<Rightarrow> string \<Rightarrow> error option"
  osChmod :: "call list \<Rightarrow> string \<Rightarrow> error option"
  mountSensitive :: "call list \<Rightarrow> string \<Rightarrow> string \<Rightarrow> string list \<Rightarrow> error option"
  dialProxy :: "call list \<Rightarrow> error option"
  mountAzureBlob :: "call list \<Rightarrow> string \<Rightarrow> string list \<Rightarrow> string \<times> error option"
  execBlobfuse :: "call list \<Rightarrow> string list \<Rightarrow> string list \<Rightarrow> string \<times> error option"
  keyVaultSecret :: "call list \<Rightarrow> string \<Rightarrow> string \<Rightarrow> string \<Rightarrow> string \<times> error option"
  kubeClient :: "(call list \<Rightarrow> string \<Rightarrow> string \<Rightarrow> error + (string \<times> string) list) option"
  cloudGetStorageAccesskey :: "call list \<Rightarrow> string \<Rightarrow> string \<Rightarrow> string \<times> error option"
  timeNowUnix :: "call list \<Rightarrow> string"
  joinMountOptions :: "string list \<Rightarrow> string list \<Rightarrow> string list"
  mapVisit1 :: "string list"
  mapVisit2 :: "string list"
  unicodeOps :: unicode

text \<open>
  The fields up to \<open>osChmod\<close> are the mounter and the file system of the host;
  \<open>mountSensitive\<close> is the mounter's NFS mount; \<open>dialProxy\<close> and \<open>mountAzureBlob\<close> are
  the connection to the blobfuse proxy and its mount service; \<open>execBlobfuse\<close> runs the
  mount helper with its arguments and environment and returns its combined output;
  \<open>kubeClient\<close> is \<open>None\<close> for a nil client and otherwise fetches the data of a secret
  by namespace and name; \<open>timeNowUnix\<close> is the decimal rendering of the clock;
  \<open>joinMountOptions\<close> is the helper of the Kubernetes volume utilities that merges two
  lists of options; \<open>mapVisit1\<close> and \<open>mapVisit2\<close> are the orders in which the runtime
  visits the map of default options in the two loops of \<open>appendDefaultMountOptions\<close>;
  \<open>unicodeOps\<close> are the Unicode tables of the runtime.
  The messages of \<open>Status\<close> errors are given by the constant part of their format.
\<close>

definition IsLikelyNotMountPoint ::
  "environment \<Rightarrow> string \<Rightarrow> call list \<Rightarrow> (bool \<times> error option) \<times> call list" where
  "IsLikelyNotMountPoint e p h = (isLikelyNotMountPoint e h p, h @ [IsLikelyNotMountPoint_call p])"

definition PathExists ::
  "environment \<Rightarrow> string \<Rightarrow> call list \<Rightarrow> (bool \<times> error option) \<times> call list" where
  "PathExists e p h = (pathExists e h p, h @ [PathExists_call p])"

definition ReadDir :: "environment \<Rightarrow> string \<Rightarrow> call list \<Rightarrow> error option \<times> call list" where
  "ReadDir e p h = (readDir e h p, h @ [ReadDir_call p])"

definition Unmount :: "environment \<Rightarrow> string \<Rightarrow> call list \<Rightarrow> error option \<times> call list" where
  "Unmount e p h = (unmount e h p, h @ [Unmount_call p])"

text \<open>
  Modelled from the spec: \<open>MakeDir\<close> of the driver's utility package, whose source is not
  among the files; it creates the directory if it does not exist and reports an error.
\<close>

definition MakeDir :: "environment \<Rightarrow> string \<Rightarrow> call list \<Rightarrow> error option \<times> call list" where
  "MakeDir e p h = (makeDir e h p, h @ [MakeDir_call p])"

definition Remove :: "environment \<Rightarrow> string \<Rightarrow> call list \<Rightarrow> error option \<times> call list" where
  "Remove e p h = (osRemove e h p, h @ [Remove_call p])"

definition Chmod :: "environment \<Rightarrow> string \<Rightarrow> call list \<Rightarrow> error option \<times> call list" where
  "Chmod e p h = (osChmod e h p, h @ [Chmod_call p])"

definition MountSensitive ::
  "environment \<Rightarrow> string \<Rightarrow> string \<Rightarrow> string list \<Rightarrow> call list \<Rightarrow> error option \<times> call list" where
  "MountSensitive e source target opts h =
     (mountSensitive e h source target opts, h @ [MountSensitive_call source target opts])"

text \<open>
  Modelled from the spec: \<open>getKeyVaultSecretContent\<close>, whose source is not among the
  files; it is the capability \<open>KeyVaultClient.GetSecret(url, name, version)\<close> that
  returns the value of the secret or an error.
\<close>

definition getKeyVaultSecretContent ::
  "environment \<Rightarrow> string \<Rightarrow> string \<Rightarrow> string \<Rightarrow> call list \<Rightarrow> (string \<times> error option) \<times> call list" where
  "getKeyVaultSecretContent e url name version h =
     (keyVaultSecret e h url name version, h @ [KeyVaultSecret_call url name version])"

definition cloudStorageAccesskey ::
  "environment \<Rightarrow> string \<Rightarrow> string \<Rightarrow> call list \<Rightarrow> (string \<times> error option) \<times> call list" where
  "cloudStorageAccesskey e account rg h =
     (cloudGetStorageAccesskey e h account rg, h @ [GetStorageAccesskey_call account rg])"

record Driver =
  enableBlobMockMount :: bool
  enableBlobfuseProxy :: bool
  cloudResourceGroup :: string
  cloudStorageEndpointSuffix :: string

record state =
  volumeLocks :: "string set"
  calls :: "call list"

record NodeStageVolumeRequest =
  VolumeId :: string
  StagingTargetPath :: string
  VolumeCapability :: "string list option"
  VolumeContext :: "(string \<times> string) list"
  Secrets :: "(string \<times> string) list"

text \<open>
  A Go map of strings is given as the list of its entries in the order in which the
  \<open>range\<close> loop over it visits them. \<open>VolumeCapability\<close> is \<open>None\<close> for a nil
  capability and otherwise holds the mount flags of the capability.
\<close>

text \<open>
  Modelled from the spec: the lock table \<open>volumeLocks\<close>, whose source is not among the
  files. \<open>TryAcquire(id)\<close> is non-blocking and fails when the id is held;
  \<open>Release(id)\<close> frees it.
\<close>

definition TryAcquire :: "string \<Rightarrow> string set \<Rightarrow> bool \<times> string set" where
  "TryAcquire id' locks = (if id' \<in> locks then (False, locks) else (True, insert id' locks))"

definition Release :: "string \<Rightarrow> string set \<Rightarrow> string set" where
  "Release id' locks = locks - {id'}"

section \<open>Credential resolution\<close>

text \<open>\<open>GetStorageAccountFromSecret\<close>: \<open><accountName, accountKey, error>\<close> of a secret.\<close>

definition GetStorageAccountFromSecret ::
  "environment \<Rightarrow> string \<Rightarrow> string \<Rightarrow> call list \<Rightarrow> (string \<times> string \<times> error option) \<times> call list" where
  "GetStorageAccountFromSecret e secretName secretNamespace h =
     (case kubeClient e of
        None \<Rightarrow> (([], [], Some (ErrKubeClientNil secretName)), h)
      | Some get \<Rightarrow>
          (case get h secretNamespace secretName of
             Inl er \<Rightarrow> (([], [], Some (ErrGetSecret secretName er)),
                        h @ [GetSecret_call secretNamespace secretName])
           | Inr data \<Rightarrow>
               (((case map_of data defaultSecretAccountName of None \<Rightarrow> [] | Some v \<Rightarrow> v),
                 (case map_of data defaultSecretAccountKey of None \<Rightarrow> [] | Some v \<Rightarrow> v),
                 None),
                h @ [GetSecret_call secretNamespace secretName])))"

record attribVars =
  av_accountName :: string
  av_containerName :: string
  av_secretName :: string
  av_secretNamespace :: string
  av_keyVaultURL :: string
  av_keyVaultSecretName :: string
  av_keyVaultSecretVersion :: string
  av_azureStorageAuthType :: string
  av_authEnv :: "string list"
  av_getAccountKeyFromSecret :: bool

text \<open>One iteration of the loop over the volume attributes in \<open>GetAuthEnv\<close>.\<close>

definition attribStep :: "unicode \<Rightarrow> string \<times> string \<Rightarrow> attribVars \<Rightarrow> attribVars" where
  "attribStep u kv s =
     (let k = ToLower u (fst kv); v = snd kv in
      if k = containerNameField then s\<lparr>av_containerName := v\<rparr>
      else if k = keyVaultURLField then s\<lparr>av_keyVaultURL := v\<rparr>
      else if k = keyVaultSecretNameField then s\<lparr>av_keyVaultSecretName := v\<rparr>
      else if k = keyVaultSecretVersionField then s\<lparr>av_keyVaultSecretVersion := v\<rparr>
      else if k = storageAccountField then s\<lparr>av_accountName := v\<rparr>
      else if k = storageAccountNameField then s\<lparr>av_accountName := v\<rparr>
      else if k = secretNameField then s\<lparr>av_secretName := v\<rparr>
      else if k = secretNamespaceField then s\<lparr>av_secretNamespace := v\<rparr>
      else if k = getAccountKeyFromSecretField
        then s\<lparr>av_getAccountKeyFromSecret := EqualFold u v trueValue\<rparr>
      else if k = ''azurestorageauthtype''
        then s\<lparr>av_azureStorageAuthType := v,
               av_authEnv := av_authEnv s @ [''AZURE_STORAGE_AUTH_TYPE='' @ v]\<rparr>
      else if k = ''azurestorageidentityclientid''
        then s\<lparr>av_authEnv := av_authEnv s @ [''AZURE_STORAGE_IDENTITY_CLIENT_ID='' @ v]\<rparr>
      else if k = ''azurestorageidentityobjectid''
        then s\<lparr>av_authEnv := av_authEnv s @ [''AZURE_STORAGE_IDENTITY_OBJECT_ID='' @ v]\<rparr>
      else if k = ''azurestorageidentityresourceid''
        then s\<lparr>av_authEnv := av_authEnv s @ [''AZURE_STORAGE_IDENTITY_RESOURCE_ID='' @ v]\<rparr>
      else if k = ''msiendpoint''
        then s\<lparr>av_authEnv := av_authEnv s @ [''MSI_ENDPOINT='' @ v]\<rparr>
      else if k = ''azurestoragespnclientid''
        then s\<lparr>av_authEnv := av_authEnv s @ [''AZURE_STORAGE_SPN_CLIENT_ID='' @ v]\<rparr>
      else if k = ''azurestoragespntenantid''
        then s\<lparr>av_authEnv := av_authEnv s @ [''AZURE_STORAGE_SPN_TENANT_ID='' @ v]\<rparr>
      else if k = ''azurestorageaadendpoint''
        then s\<lparr>av_authEnv := av_authEnv s @ [''AZURE_STORAGE_AAD_ENDPOINT='' @ v]\<rparr>
      else s)"

record secretVars =
  sc_accountName :: string
  sc_accountKey :: string
  sc_accountSasToken :: string
  sc_authEnv :: "string list"

text \<open>One iteration of the loop over the request secrets in \<open>GetAuthEnv\<close>.\<close>

definition secretStep :: "unicode \<Rightarrow> string \<times> string \<Rightarrow> secretVars \<Rightarrow> secretVars" where
  "secretStep u kv s =
     (let k = ToLower u (fst kv); v = snd kv in
      if k = accountNameField then s\<lparr>sc_accountName := v\<rparr>
      else if k = defaultSecretAccountName then s\<lparr>sc_accountName := v\<rparr>
      else if k = accountKeyField then s\<lparr>sc_accountKey := v\<rparr>
      else if k = defaultSecretAccountKey then s\<lparr>sc_accountKey := v\<rparr>
      else if k = ''azurestorageaccountsastoken'' then s\<lparr>sc_accountSasToken := v\<rparr>
      else if k = ''msisecret''
        then s\<lparr>sc_authEnv := sc_authEnv s @ [''MSI_SECRET='' @ v]\<rparr>
      else if k = ''azurestoragespnclientsecret''
        then s\<lparr>sc_authEnv := sc_authEnv s @ [''AZURE_STORAGE_SPN_CLIENT_SECRET='' @ v]\<rparr>
      else s)"

text \<open>
  The end of \<open>GetAuthEnv\<close>: the container-name check, then the SAS token and the
  account key are appended to the environment when they are not empty.
\<close>

definition finishAuthEnv ::
  "string \<Rightarrow> string \<Rightarrow> string \<Rightarrow> string list \<Rightarrow> string \<Rightarrow> string \<Rightarrow> error option
   \<Rightarrow> string \<times> string \<times> string list \<times> error option" where
  "finishAuthEnv volumeID accountName containerName authEnv accountKey accountSasToken err =
     (let err = (if containerName = [] then Some (ErrNoContainerName volumeID) else err);
          authEnv = (if accountSasToken \<noteq> []
                     then authEnv @ [''AZURE_STORAGE_SAS_TOKEN='' @ accountSasToken] else authEnv);
          authEnv = (if accountKey \<noteq> []
                     then authEnv @ [''AZURE_STORAGE_ACCESS_KEY='' @ accountKey] else authEnv)
      in (accountName, containerName, authEnv, err))"

text \<open>
  \<open>GetAuthEnv\<close> returns \<open><accountName, containerName, authEnv, error>\<close>. The error of
  parsing the volume id is dropped. For the protocol \<open>nfs\<close> it returns before any key
  is looked up and before the container name is checked.
\<close>

definition attribVarsOf :: "unicode \<Rightarrow> string \<Rightarrow> (string \<times> string) list \<Rightarrow> attribVars" where
  "attribVarsOf u volumeID attrib =
     (let (rgName, accountName, containerName) =
            (case GetContainerInfo volumeID of Inl _ \<Rightarrow> ([], [], []) | Inr t \<Rightarrow> t)
      in fold (attribStep u) attrib
           \<lparr>av_accountName = accountName, av_containerName = containerName,
            av_secretName = [], av_secretNamespace = [], av_keyVaultURL = [],
            av_keyVaultSecretName = [], av_keyVaultSecretVersion = [],
            av_azureStorageAuthType = [], av_authEnv = [],
            av_getAccountKeyFromSecret = False\<rparr>)"

text \<open>
  The branch of \<open>GetAuthEnv\<close> taken without a key-vault URL and without request
  secrets: the named secret first, then the cloud account. \<open>Inl\<close> is the early return
  with the error \<open>no key for storage account\<close>; \<open>Inr\<close> carries the account name, the
  account key and the pending error on to the end of \<open>GetAuthEnv\<close>.
\<close>

definition keyFromSecretOrCloud ::
  "environment \<Rightarrow> attribVars \<Rightarrow> string \<Rightarrow> string \<Rightarrow> call list
   \<Rightarrow> ((string \<times> error) + (string \<times> string \<times> error option)) \<times> call list" where
  "keyFromSecretOrCloud e a rgName secretNamespace h =
     (let accountName = av_accountName a;
          secretName = (if av_secretName a = [] \<and> accountName \<noteq> []
                        then ''azure-storage-account-'' @ accountName @ ''-secret''
                        else av_secretName a)
      in
      if secretName \<noteq> [] \<and> \<not> EqualFold (unicodeOps e) (av_azureStorageAuthType a) ''msi'' then
        (let ((name, accountKey, err), h1) =
               GetStorageAccountFromSecret e secretName secretNamespace h;
             accountName = (if name \<noteq> [] then name else accountName)
         in
         if err \<noteq> None \<and> \<not> av_getAccountKeyFromSecret a then
           (let ((accountKey, err), h2) = cloudStorageAccesskey e accountName rgName h1
            in case err of
                 Some er \<Rightarrow> (Inl (accountName, ErrNoKey accountName rgName er), h2)
               | None \<Rightarrow> (Inr (accountName, accountKey, None), h2))
         else (Inr (accountName, accountKey, err), h1))
      else (Inr (accountName, [], None), h))"

text \<open>
  The secret namespace and the resource group that \<open>GetAuthEnv\<close> works with: the
  namespace \<open>default\<close> and the resource group of the cloud configuration stand in for
  empty values.
\<close>

definition secretNamespaceOf :: "attribVars \<Rightarrow> string" where
  "secretNamespaceOf a = (if av_secretNamespace a = [] then ''default'' else av_secretNamespace a)"

definition resourceGroupOf :: "Driver \<Rightarrow> string \<Rightarrow> string" where
  "resourceGroupOf d volumeID =
     (let rgName = (case GetContainerInfo volumeID of Inl _ \<Rightarrow> [] | Inr (rg, _, _) \<Rightarrow> rg)
      in if rgName = [] then cloudResourceGroup d else rgName)"

definition GetAuthEnv ::
  "Driver \<Rightarrow> environment \<Rightarrow> string \<Rightarrow> string \<Rightarrow> (string \<times> string) list \<Rightarrow> (string \<times> string) list
   \<Rightarrow> call list \<Rightarrow> (string \<times> string \<times> string list \<times> error option) \<times> call list" where
  "GetAuthEnv d e volumeID protocol attrib secrets h =
     (let a = attribVarsOf (unicodeOps e) volumeID attrib;
          accountName = av_accountName a;
          containerName = av_containerName a;
          authEnv = av_authEnv a
      in
      if protocol = nfs then ((accountName, containerName, authEnv, None), h)
      else
        let secretNamespace = secretNamespaceOf a;
            rgName = resourceGroupOf d volumeID
        in
        if av_keyVaultURL a \<noteq> [] then
          (let ((key, kerr), h1) =
                 getKeyVaultSecretContent e (av_keyVaultURL a) (av_keyVaultSecretName a)
                   (av_keyVaultSecretVersion a) h
           in case kerr of
                Some er \<Rightarrow> ((accountName, containerName, authEnv, Some er), h1)
              | None \<Rightarrow>
                  if isSASToken key
                  then (finishAuthEnv volumeID accountName containerName authEnv [] key None, h1)
                  else (finishAuthEnv volumeID accountName containerName authEnv key [] None, h1))
        else if secrets = [] then
          (case keyFromSecretOrCloud e a rgName secretNamespace h of
             (Inl (accountName, er), h1) \<Rightarrow>
               ((accountName, containerName, authEnv, Some er), h1)
           | (Inr (accountName, accountKey, err), h1) \<Rightarrow>
               (finishAuthEnv volumeID accountName containerName authEnv accountKey [] err, h1))
        else
          (let s = fold (secretStep (unicodeOps e)) secrets
                     \<lparr>sc_accountName = accountName, sc_accountKey = [],
                      sc_accountSasToken = [], sc_authEnv = authEnv\<rparr>
           in (finishAuthEnv volumeID (sc_accountName s) containerName (sc_authEnv s)
                 (sc_accountKey s) (sc_accountSasToken s) None, h)))"

text \<open>The entries of the authentication environment that carry key material.\<close>

definition isSasEntry :: "string \<Rightarrow> bool" where
  "isSasEntry x = HasPrefix x ''AZURE_STORAGE_SAS_TOKEN=''"

definition isKeyEntry :: "string \<Rightarrow> bool" where
  "isKeyEntry x = HasPrefix x ''AZURE_STORAGE_ACCESS_KEY=''"

definition keyCount :: "string list \<Rightarrow> nat" where
  "keyCount env = length (filter isSasEntry env) + length (filter isKeyEntry env)"

section \<open>Staging\<close>

text \<open>\<open>IsCorruptedDir\<close>: the path check fails with an error of a corrupted mount.\<close>

definition IsCorruptedDir :: "environment \<Rightarrow> string \<Rightarrow> call list \<Rightarrow> bool \<times> call list" where
  "IsCorruptedDir e dir h =
     (let ((_, pathErr), h1) = PathExists e dir h in
      (case pathErr of None \<Rightarrow> False | Some er \<Rightarrow> IsCorruptedMnt er, h1))"

text \<open>
  \<open>ensureMountPoint\<close>: create the mount point if it does not exist. In the branch of a
  mount point whose directory cannot be read, the \<open>err\<close> named by the last
  \<open>return !notMnt, err\<close> is the one declared by \<open>_, err := ioutil.ReadDir(target)\<close>:
  the error of \<open>Unmount\<close> is declared in, and local to, the \<open>if\<close> statement before.
\<close>

definition ensureMountPoint ::
  "environment \<Rightarrow> string \<Rightarrow> call list \<Rightarrow> (bool \<times> error option) \<times> call list" where
  "ensureMountPoint e target h =
     (let ((notMnt, err), h1) = IsLikelyNotMountPoint e target h;
          probe = (case err of
                     None \<Rightarrow> Inr (notMnt, h1)
                   | Some er \<Rightarrow>
                       if \<not> IsNotExist er then
                         (let (corrupted, h2) = IsCorruptedDir e target h1 in
                          if corrupted then Inr (False, h2)
                          else Inl ((\<not> notMnt, Some er), h2))
                       else Inr (notMnt, h1))
      in case probe of
           Inl r \<Rightarrow> r
         | Inr (notMnt, h2) \<Rightarrow>
             if \<not> notMnt then
               (let (rerr, h3) = ReadDir e target h2 in
                case rerr of
                  None \<Rightarrow> ((\<not> notMnt, None), h3)
                | Some rer \<Rightarrow>
                    (let (uerr, h4) = Unmount e target h3 in
                     case uerr of
                       Some uer \<Rightarrow> ((\<not> notMnt, Some uer), h4)
                     | None \<Rightarrow> ((\<not> True, Some rer), h4)))
             else
               (let (merr, h3) = MakeDir e target h2 in
                case merr of
                  Some mer \<Rightarrow> ((\<not> notMnt, Some mer), h3)
                | None \<Rightarrow> ((\<not> notMnt, None), h3)))"

text \<open>\<open>mountBlobfuseWithProxy\<close> and \<open>mountBlobfuseInsideDriver\<close>: the mount executor.\<close>

definition mountBlobfuseWithProxy ::
  "environment \<Rightarrow> string \<Rightarrow> string list \<Rightarrow> call list \<Rightarrow> (string \<times> error option) \<times> call list" where
  "mountBlobfuseWithProxy e args authEnv h =
     (let derr = dialProxy e h; h1 = h @ [DialProxy_call] in
      case derr of
        None \<Rightarrow> (mountAzureBlob e h1 args authEnv, h1 @ [MountAzureBlob_call args authEnv])
      | Some er \<Rightarrow> (([], Some er), h1))"

definition mountBlobfuseInsideDriver ::
  "environment \<Rightarrow> string \<Rightarrow> string list \<Rightarrow> call list \<Rightarrow> (string \<times> error option) \<times> call list" where
  "mountBlobfuseInsideDriver e args authEnv h =
     (let argv = Split args CHR '' '' in
      (execBlobfuse e h argv authEnv, h @ [ExecBlobfuse_call argv authEnv]))"

record stageVars =
  sv_serverAddress :: string
  sv_storageEndpointSuffix :: string
  sv_protocol :: string
  sv_ephemeralVolMountOptions :: string
  sv_ephemeralVol :: bool
  sv_isHnsEnabled :: bool

text \<open>One iteration of the loop over the volume context in \<open>NodeStageVolume\<close>.\<close>

definition stageAttribStep :: "unicode \<Rightarrow> string \<times> string \<Rightarrow> stageVars \<Rightarrow> stageVars" where
  "stageAttribStep u kv s =
     (let k = ToLower u (fst kv); v = snd kv in
      if k = serverNameField then s\<lparr>sv_serverAddress := v\<rparr>
      else if k = protocolField then s\<lparr>sv_protocol := v\<rparr>
      else if k = storageEndpointSuffixField then s\<lparr>sv_storageEndpointSuffix := v\<rparr>
      else if k = ephemeralField then s\<lparr>sv_ephemeralVol := EqualFold u v trueValue\<rparr>
      else if k = mountOptionsField then s\<lparr>sv_ephemeralVolMountOptions := v\<rparr>
      else if k = isHnsEnabledField then s\<lparr>sv_isHnsEnabled := EqualFold u v trueValue\<rparr>
      else s)"

text \<open>
  The handling of a failed mount at the end of \<open>NodeStageVolume\<close>: the original error is
  returned on every path; the target directory is removed only when the target is found
  not to be a mount point, at once or after an unmount.
\<close>

definition rollbackFailedMount ::
  "environment \<Rightarrow> string \<Rightarrow> error \<Rightarrow> call list \<Rightarrow> error option \<times> call list" where
  "rollbackFailedMount e targetPath err h =
     (let ((notMnt, mntErr), h1) = IsLikelyNotMountPoint e targetPath h in
      if mntErr \<noteq> None then (Some err, h1)
      else if \<not> notMnt then
        (let (mntErr, h2) = Unmount e targetPath h1 in
         if mntErr \<noteq> None then (Some err, h2)
         else
           (let ((notMnt, mntErr), h3) = IsLikelyNotMountPoint e targetPath h2 in
            if mntErr \<noteq> None then (Some err, h3)
            else if \<not> notMnt then (Some err, h3)
            else (let (_, h4) = Remove e targetPath h3 in (Some err, h4))))
      else (let (_, h4) = Remove e targetPath h1 in (Some err, h4)))"

text \<open>The branch of \<open>NodeStageVolume\<close> for the protocol \<open>nfs\<close>.\<close>

definition stageNfs ::
  "environment \<Rightarrow> string list \<Rightarrow> string \<Rightarrow> string \<Rightarrow> string \<Rightarrow> string \<Rightarrow> call list
   \<Rightarrow> error option \<times> call list" where
  "stageNfs e mountFlags targetPath serverAddress accountName containerName h =
     (let source = serverAddress @ '':/'' @ accountName @ ''/'' @ containerName;
          mountOptions = joinMountOptions e mountFlags [''sec=sys,vers=3,nolock''];
          (merr, h1) = MountSensitive e source targetPath mountOptions h
      in case merr of
           Some er \<Rightarrow> (Some (Status Internal ''mount failed''), h1)
         | None \<Rightarrow>
             (let (cerr, h2) = Chmod e targetPath h1 in
              case cerr of
                Some er \<Rightarrow> (Some (Status Internal ''Chmod failed''), h2)
              | None \<Rightarrow> (None, h2)))"

text \<open>The branch of \<open>NodeStageVolume\<close> for blobfuse.\<close>

definition stageFuse ::
  "Driver \<Rightarrow> environment \<Rightarrow> string \<Rightarrow> string list \<Rightarrow> stageVars \<Rightarrow> string \<Rightarrow> string \<Rightarrow> string
   \<Rightarrow> string \<Rightarrow> string list \<Rightarrow> call list \<Rightarrow> error option \<times> call list" where
  "stageFuse d e volumeID mountFlags sv targetPath serverAddress accountName containerName
     authEnv h =
     (let mountOptions = mountFlags;
          mountOptions = (if sv_ephemeralVol sv
                          then joinMountOptions e mountOptions
                                 (Split (sv_ephemeralVolMountOptions sv) CHR '','')
                          else mountOptions);
          mountOptions = (if sv_isHnsEnabled sv
                          then joinMountOptions e mountOptions [''--use-adls=true'']
                          else mountOptions);
          tmpPath = ''/mnt/'' @ volumeID @ ''#'' @ timeNowUnix e h;
          mountOptions = appendDefaultMountOptions (mapVisit1 e) (mapVisit2 e) mountOptions
                           tmpPath containerName;
          args = fold (\<lambda>opt args. args @ '' '' @ opt) mountOptions targetPath;
          authEnv = authEnv @ [''AZURE_STORAGE_ACCOUNT='' @ accountName,
                               ''AZURE_STORAGE_BLOB_ENDPOINT='' @ serverAddress]
      in
      if enableBlobMockMount d then MakeDir e targetPath h
      else
        (let ((output, err), h1) =
               (if enableBlobfuseProxy d then mountBlobfuseWithProxy e args authEnv h
                else mountBlobfuseInsideDriver e args authEnv h)
         in case err of
              None \<Rightarrow> (None, h1)
            | Some er \<Rightarrow> rollbackFailedMount e targetPath (ErrMountFailed er output) h1))"

text \<open>\<open>NodeStageVolume\<close> while the lock of the volume is held.\<close>

definition stageLocked ::
  "Driver \<Rightarrow> environment \<Rightarrow> NodeStageVolumeRequest \<Rightarrow> call list \<Rightarrow> error option \<times> call list" where
  "stageLocked d e req h =
     (let volumeID = VolumeId req;
          targetPath = StagingTargetPath req;
          ((mnt, err), h1) = ensureMountPoint e targetPath h
      in
      if err \<noteq> None then (Some (Status Internal ''Could not mount target''), h1)
      else if mnt then (None, h1)
      else
        (let mountFlags = (case VolumeCapability req of None \<Rightarrow> [] | Some fl \<Rightarrow> fl);
             attrib = VolumeContext req;
             secrets = Secrets req;
             sv = fold (stageAttribStep (unicodeOps e)) attrib
                    \<lparr>sv_serverAddress = [], sv_storageEndpointSuffix = [], sv_protocol = [],
                     sv_ephemeralVolMountOptions = [], sv_ephemeralVol = False,
                     sv_isHnsEnabled = False\<rparr>;
             protocol = sv_protocol sv;
             ((accountName, containerName, authEnv, err), h2) =
               GetAuthEnv d e volumeID protocol attrib secrets h1
         in case err of
              Some er \<Rightarrow> (Some er, h2)
            | None \<Rightarrow>
                (let storageEndpointSuffix =
                       (if TrimSpace (unicodeOps e) (sv_storageEndpointSuffix sv) = [] then
                          (if cloudStorageEndpointSuffix d \<noteq> []
                           then cloudStorageEndpointSuffix d else ''core.windows.net'')
                        else sv_storageEndpointSuffix sv);
                     serverAddress =
                       (if TrimSpace (unicodeOps e) (sv_serverAddress sv) = []
                        then accountName @ ''.blob.'' @ storageEndpointSuffix
                        else sv_serverAddress sv)
                 in
                 if protocol = nfs
                 then stageNfs e mountFlags targetPath serverAddress accountName containerName h2
                 else stageFuse d e volumeID mountFlags sv targetPath serverAddress accountName
                        containerName authEnv h2)))"

text \<open>
  \<open>NodeStageVolume\<close>: the required fields, the lock of the volume (released on every
  exit once acquired), then the staging itself. The result is the error, if any.
\<close>

definition NodeStageVolume ::
  "Driver \<Rightarrow> environment \<Rightarrow> NodeStageVolumeRequest \<Rightarrow> state \<Rightarrow> error option \<times> state" where
  "NodeStageVolume d e req st =
     (let volumeID = VolumeId req;
          targetPath = StagingTargetPath req in
      if volumeID = [] then (Some (Status InvalidArgument ''Volume ID missing in request''), st)
      else if targetPath = []
        then (Some (Status InvalidArgument ''Staging target not provided''), st)
      else if VolumeCapability req = None
        then (Some (Status InvalidArgument ''Volume capability not provided''), st)
      else
        (let (acquired, locks) = TryAcquire volumeID (volumeLocks st) in
         if \<not> acquired
         then (Some (Status Aborted ''An operation with the given Volume ID already exists''), st)
         else
           (let (r, h) = stageLocked d e req (calls st) in
            (r, \<lparr>volumeLocks = Release volumeID locks, calls = h\<rparr>))))"

text \<open>The calls that hand a mount to the mount executor or to the mounter.\<close>

fun isMountCall :: "call \<Rightarrow> bool" where
  "isMountCall (DialProxy_call) = True"
| "isMountCall (MountAzureBlob_call _ _) = True"
| "isMountCall (ExecBlobfuse_call _ _) = True"
| "isMountCall (MountSensitive_call _ _ _) = True"
| "isMountCall _ = False"

text \<open>The calls that ask a credential source for key material.\<close>

fun isCredentialCall :: "call \<Rightarrow> bool" where
  "isCredentialCall (KeyVaultSecret_call _ _ _) = True"
| "isCredentialCall (GetSecret_call _ _) = True"
| "isCredentialCall (GetStorageAccesskey_call _ _) = True"
| "isCredentialCall _ = False"

section \<open>Sample hosts\<close>

text \<open>
  Unicode tables that leave every string as it is; the samples below are ASCII and never
  reach them.
\<close>

definition sampleUnicode :: unicode where
  "sampleUnicode =
     \<lparr>unicodeToLower = (\<lambda>s. s), unicodeEqualFold = (\<lambda>s t. s = t), unicodeTrimSpace = (\<lambda>s. s)\<rparr>"

text \<open>
  A host on which every call succeeds and on which a path is a mount point once a mount
  call was made; no key vault, no secret store and no cloud account are reachable. Its
  \<open>joinMountOptions\<close> is the sorted set of the non-empty user options and the system
  options.
\<close>

definition hostEnv :: environment where
  "hostEnv =
     \<lparr>isLikelyNotMountPoint =
        (\<lambda>h p. if list_ex isMountCall h then (False, None) else (True, Some ErrNotExist)),
      pathExists = (\<lambda>h p. (True, None)),
      readDir = (\<lambda>h p. None),
      unmount = (\<lambda>h p. None),
      makeDir = (\<lambda>h p. None),
      osRemove = (\<lambda>h p. None),
      osChmod = (\<lambda>h p. None),
      mountSensitive = (\<lambda>h source target opts. None),
      dialProxy = (\<lambda>h. None),
      mountAzureBlob = (\<lambda>h args authEnv. ([], None)),
      execBlobfuse = (\<lambda>h argv authEnv. ([], None)),
      keyVaultSecret = (\<lambda>h url name version. ([], Some (ErrOther ''key vault unreachable''))),
      kubeClient = None,
      cloudGetStorageAccesskey = (\<lambda>h account rg. ([], Some (ErrOther ''no access''))),
      timeNowUnix = (\<lambda>h. ''1600000000''),
      joinMountOptions = (\<lambda>userOptions systemOptions.
                            sort (remdups (filter (\<lambda>x. x \<noteq> []) userOptions @ systemOptions))),
      mapVisit1 = defaultKeys,
      mapVisit2 = defaultKeys,
      unicodeOps = sampleUnicode\<rparr>"

text \<open>The same host with a mount helper that fails.\<close>

definition failingMountEnv :: environment where
  "failingMountEnv =
     hostEnv\<lparr>execBlobfuse := (\<lambda>h argv authEnv. (''mount error'', Some (ErrOther ''exit status 1'')))\<rparr>"

text \<open>
  A host whose mount helper fails and leaves nothing mounted: the target is never a
  mount point.
\<close>

definition cleanFailureEnv :: environment where
  "cleanFailureEnv =
     failingMountEnv\<lparr>isLikelyNotMountPoint :=
        (\<lambda>h p. if list_ex (\<lambda>c. c = MakeDir_call p) h then (True, None)
                else (True, Some ErrNotExist))\<rparr>"

text \<open>A host on which the target is a mount point whose directory cannot be read.\<close>

definition brokenLinkEnv :: environment where
  "brokenLinkEnv =
     hostEnv\<lparr>isLikelyNotMountPoint := (\<lambda>h p. (False, None)),
             readDir := (\<lambda>h p. Some (ErrOther ''transport endpoint is not connected''))\<rparr>"

text \<open>A host whose key vault answers.\<close>

definition keyVaultEnv :: "string \<Rightarrow> environment" where
  "keyVaultEnv secret = hostEnv\<lparr>keyVaultSecret := (\<lambda>h url name version. (secret, None))\<rparr>"

definition driver0 :: Driver where
  "driver0 = \<lparr>enableBlobMockMount = False, enableBlobfuseProxy = False,
              cloudResourceGroup = ''rg0'', cloudStorageEndpointSuffix = []\<rparr>"

definition state0 :: state where
  "state0 = \<lparr>volumeLocks = {}, calls = []\<rparr>"

text \<open>A request for the volume \<open>rg1#acct1#cont1#abc123\<close> with an inline account key.\<close>

definition request0 :: NodeStageVolumeRequest where
  "request0 =
     \<lparr>VolumeId = ''rg1#acct1#cont1#abc123'',
      StagingTargetPath = ''/staging/vol1'',
      VolumeCapability = Some [],
      VolumeContext = [],
      Secrets = [(''accountname'', ''acct1''), (''accountkey'', ''key1'')]\<rparr>"

text \<open>The same volume with a key-vault reference and no inline secret.\<close>

definition requestKeyVault :: NodeStageVolumeRequest where
  "requestKeyVault =
     request0\<lparr>VolumeContext := [(''keyVaultURL'', ''https://kv.vault.azure.net'')],
              Secrets := []\<rparr>"

text \<open>The tokens that \<open>appendDefaultMountOptions\<close> appends when it visits one key.\<close>

definition emitDefault :: "string set \<Rightarrow> (string \<times> string) list \<Rightarrow> string \<Rightarrow> string list" where
  "emitDefault included defaults k =
     (case map_of defaults k of
        None \<Rightarrow> []
      | Some v \<Rightarrow> if k \<notin> included then [if v \<noteq> [] then k @ ''='' @ v else k] else [])"

section \<open>Volume identity: properties\<close>

lemma Split_not_Nil: "Split v c \<noteq> []"
  by (induction v) (auto split: list.splits)

lemma length_Split: "length (Split v c) = count_list v c + 1"
  using Split_not_Nil[of _ c] by (induction v) (auto split: list.splits)

lemma Split_no_sep: "c \<notin> set s \<Longrightarrow> Split s c = [s]"
  by (induction s) auto

lemma Split_append_sep: "c \<notin> set s \<Longrightarrow> Split (s @ c # t) c = s # Split t c"
  by (induction s) auto

lemma Join_Cons: "ss \<noteq> [] \<Longrightarrow> Join (s # ss) c = s @ c # Join ss c"
  by (cases ss) auto

lemma Join_Split: "Join (Split v c) c = v"
proof (induction v)
  case Nil
  then show ?case by simp
next
  case (Cons x xs)
  obtain s ss where sp: "Split xs c = s # ss"
    using Split_not_Nil[of xs c] by (cases "Split xs c") auto
  show ?case
  proof (cases "x = c")
    case True
    then show ?thesis using Cons Split_not_Nil[of xs c] by (simp add: Join_Cons)
  next
    case False
    have "Join ((x # s) # ss) c = x # Join (s # ss) c"
      by (cases ss) auto
    then show ?thesis using False Cons sp by simp
  qed
qed

text \<open>
  Claim C7. \<open>GetContainerInfo\<close> splits the volume id on \<open>#\<close> and fails with the parse
  error exactly when fewer than three segments result, that is when the id holds fewer
  than two \<open>#\<close>; the segments joined by \<open>#\<close> are the id again; with at least three
  segments it returns the first three unchanged; and for an identity of four segments
  \<open>rg#account#container#discriminator\<close> it returns the triple \<open>(rg, account, container)\<close>,
  which joined by \<open>#\<close> is the start of the identity.
\<close>

theorem GetContainerInfo_segments:
  "(GetContainerInfo v = Inl (ErrParseVolumeID v) \<longleftrightarrow> length (Split v separator) < 3) \<and>
   (isl (GetContainerInfo v) \<longleftrightarrow> count_list v separator < 2) \<and>
   Join (Split v separator) separator = v \<and>
   (3 \<le> length (Split v separator) \<longrightarrow>
      GetContainerInfo v =
        Inr (Split v separator ! 0, Split v separator ! 1, Split v separator ! 2)) \<and>
   (separator \<notin> set rg \<and> separator \<notin> set account \<and> separator \<notin> set container \<and>
    separator \<notin> set discriminator \<longrightarrow>
      GetContainerInfo (Join [rg, account, container, discriminator] separator) =
        Inr (rg, account, container) \<and>
      Join [rg, account, container, discriminator] separator =
        Join [rg, account, container] separator @ separator # discriminator)"
  by (auto simp: GetContainerInfo_def Let_def length_Split Join_Split Split_append_sep
        Split_no_sep)

theorem GetContainerInfo_segments_witness:
  "GetContainerInfo ''rg1#acct1#cont1#abc123'' = Inr (''rg1'', ''acct1'', ''cont1'') \<and>
   GetContainerInfo ''acct1#cont1'' = Inl (ErrParseVolumeID ''acct1#cont1'') \<and>
   GetContainerInfo ''#acct1#cont1'' = Inr ([], ''acct1'', ''cont1'')"
  using GetContainerInfo_segments[of "''acct1#cont1''" "''rg1''" "''acct1''" "''cont1''" "''abc123''"]
    GetContainerInfo_segments[of "''#acct1#cont1''" "''rg1''" "''acct1''" "''cont1''" "''abc123''"]
  by simp

section \<open>Container names: properties\<close>

lemma ReplaceDashes_length: "length (ReplaceDashes s) \<le> length s"
  by (induction s rule: ReplaceDashes.induct) auto

lemma GenerateVolumeName_length:
  "GenerateVolumeName cl pv n = Inr g \<Longrightarrow> length pv < n \<Longrightarrow> length g \<le> n"
  by (auto simp: GenerateVolumeName_def Let_def split: if_splits)

text \<open>With a UUID string of 36 bytes, a name that is returned has at most 63 bytes.\<close>

lemma getValidContainerName_length:
  assumes "length newUUID = 36" "getValidContainerName u newUUID volumeName protocol = Inr name"
  shows "length name \<le> 63"
proof -
  have g: "\<And>g. GenerateVolumeName (''pvc-'' @ protocol) newUUID 63 = Inr g \<Longrightarrow> length g \<le> 63"
    using GenerateVolumeName_length[of _ newUUID 63] assms(1) by simp
  have r: "\<And>s. length s \<le> 63 \<Longrightarrow> length (ReplaceDashes s) \<le> 63"
    using ReplaceDashes_length le_trans by blast
  show ?thesis
    using assms(2) g r
    by (auto simp: getValidContainerName_def Let_def split: sum.splits if_splits)
qed

text \<open>
  A name is returned whenever the requested name in lower case is not empty, as it is
  for every ASCII name but the empty one.
\<close>

lemma getValidContainerName_returns:
  assumes "length newUUID = 36" "ToLower u volumeName \<noteq> []"
  shows "\<exists>name. getValidContainerName u newUUID volumeName protocol = Inr name"
  using assms
  by (auto simp: getValidContainerName_def Let_def checkContainerNameBeginAndEnd_def
         GenerateVolumeName_def split: sum.splits if_splits)

lemma ToLower_ASCII_nonempty: "isASCII s \<Longrightarrow> s \<noteq> [] \<Longrightarrow> ToLower u s \<noteq> []"
  by (simp add: ToLower_def)

text \<open>The requested name of the specification's example is replaced by a generated one.\<close>

lemma getValidContainerName_generated:
  "getValidContainerName sampleUnicode ''123e4567-e89b-12d3-a456-426614174000''
     ''INVALID_NAME!!'' ''fuse''
     = Inr ''pvc-fuse-dynamic-123e4567-e89b-12d3-a456-426614174000''"
  by code_simp

text \<open>
  Claim C4. The claim is that \<open>getValidContainerName\<close> never fails and returns a name
  without two consecutive dashes, of at most 63 bytes, generated when the requested
  name fails the begin/end rule or is too short. The code replaces \<open>--\<close> by \<open>-\<close> in one
  pass over non-overlapping occurrences, so a run of three dashes leaves two: for the
  requested name \<open>a---b\<close>, which passes the begin/end rule and the length test, the
  name returned is \<open>a--b\<close>.
\<close>

theorem getValidContainerName_consecutive_dashes:
  "getValidContainerName u newUUID ''a---b'' protocol = Inr ''a--b''"
  by (simp add: getValidContainerName_def ToLower_def isASCII_def toLowerChar_def
        checkContainerNameBeginAndEnd_def isLowerOrDigit_def)

theorem getValidContainerName_consecutive_dashes_witness:
  "getValidContainerName sampleUnicode ''123e4567-e89b-12d3-a456-426614174000'' ''a---b'' ''fuse''
     = Inr ''a--b''"
  by (rule getValidContainerName_consecutive_dashes)

text \<open>
  Claim C10. The claim is that \<open>getValidContainerName\<close> is total on every string, the
  empty one included, because a name shorter than three bytes is replaced without its
  first and last bytes being read. The code evaluates the begin/end check before the
  length test, and on the empty requested name the check indexes byte 0 of an empty
  string: the call panics.
\<close>

theorem getValidContainerName_empty_panics:
  "getValidContainerName u newUUID [] protocol = Inl IndexOutOfRange"
  by (simp add: getValidContainerName_def ToLower_def isASCII_def
        checkContainerNameBeginAndEnd_def)

theorem getValidContainerName_empty_panics_witness:
  "getValidContainerName sampleUnicode ''123e4567-e89b-12d3-a456-426614174000'' [] ''fuse''
     = Inl IndexOutOfRange"
  by (rule getValidContainerName_empty_panics)

section \<open>Mount options: properties\<close>

lemma inner_fold_included:
  "fold (\<lambda>k inc. if P k then insert k inc else inc) ks inc0 = inc0 \<union> {k \<in> set ks. P k}"
  by (induction ks arbitrary: inc0) auto

lemma fold_union:
  "fold (\<lambda>m inc. inc \<union> F m) ms inc0 = inc0 \<union> (\<Union>m \<in> set ms. F m)"
  by (induction ms arbitrary: inc0) auto

lemma markIncluded_fold:
  "fold (\<lambda>mountOption included.
           fold (\<lambda>k inc. if HasPrefix mountOption k then insert k inc else inc) ks included)
        ms inc0
   = inc0 \<union> {k \<in> set ks. \<exists>m \<in> set ms. HasPrefix m k}"
proof -
  have "fold (\<lambda>mountOption included.
           fold (\<lambda>k inc. if HasPrefix mountOption k then insert k inc else inc) ks included)
        ms inc0 = fold (\<lambda>m inc. inc \<union> {k \<in> set ks. HasPrefix m k}) ms inc0"
    by (simp only: inner_fold_included)
  also have "\<dots> = inc0 \<union> (\<Union>m \<in> set ms. {k \<in> set ks. HasPrefix m k})"
    by (rule fold_union)
  also have "\<dots> = inc0 \<union> {k \<in> set ks. \<exists>m \<in> set ms. HasPrefix m k}"
    by auto
  finally show ?thesis .
qed

lemma markIncluded_eq:
  "markIncluded ks ms = {k \<in> set ks. \<exists>m \<in> set ms. HasPrefix m k}"
  by (simp add: markIncluded_def markIncluded_fold)

lemma fold_emitDefault:
  "fold (\<lambda>k allMountOptions.
              case map_of defaults k of
                None \<Rightarrow> allMountOptions
              | Some v \<Rightarrow>
                  if k \<notin> included then
                    (if v \<noteq> [] then allMountOptions @ [k @ ''='' @ v]
                     else allMountOptions @ [k])
                  else allMountOptions) ks acc
   = acc @ concat (map (emitDefault included defaults) ks)"
  by (induction ks arbitrary: acc) (auto simp: emitDefault_def split: option.splits)

lemma appendDefaultMountOptions_eq:
  "appendDefaultMountOptions v1 v2 ms t c =
     ms @ concat (map (emitDefault (markIncluded v1 ms) (defaultMountOptions t c)) v2)"
  by (simp add: appendDefaultMountOptions_def Let_def fold_emitDefault)

lemma mset_concat_map_cong:
  assumes "mset ks = mset ks'"
  shows "mset (concat (map f ks)) = mset (concat (map f ks'))"
proof -
  have "mset (concat (map f zs)) = sum_mset (image_mset (\<lambda>k. mset (f k)) (mset zs))" for zs
    by (induction zs) auto
  then show ?thesis using assms by simp
qed

lemma rangeOrder_set: "rangeOrder ks \<Longrightarrow> set ks = set defaultKeys"
  by (metis rangeOrder_def set_mset_mset)

lemma rangeOrder_defaultKeys: "rangeOrder defaultKeys" "rangeOrder (rev defaultKeys)"
  by (simp_all add: rangeOrder_def)

lemma appendDefaultMountOptions_forward:
  "appendDefaultMountOptions defaultKeys defaultKeys [] ''/mnt/v#1'' ''c'' =
     [''--pre-mount-validate=true'', ''--use-https=true'', ''--tmp-path=/mnt/v#1'',
      ''--container-name=c'', ''--cancel-list-on-mount-seconds=60'']"
  by code_simp

lemma appendDefaultMountOptions_backward:
  "appendDefaultMountOptions defaultKeys (rev defaultKeys) [] ''/mnt/v#1'' ''c'' =
     [''--cancel-list-on-mount-seconds=60'', ''--container-name=c'', ''--tmp-path=/mnt/v#1'',
      ''--use-https=true'', ''--pre-mount-validate=true'']"
  by code_simp

text \<open>
  Claim C3, as stated: two evaluations of \<open>appendDefaultMountOptions\<close> on the same
  caller flags, temporary path and container name yield the same tokens in the same
  order. The defaults are appended in the order in which the second loop visits the Go
  map, which the runtime picks anew for every loop: on the same inputs, two visits in
  different orders give different sequences.
\<close>

theorem appendDefaultMountOptions_order_counterexample:
  "rangeOrder defaultKeys \<and> rangeOrder (rev defaultKeys) \<and>
   appendDefaultMountOptions defaultKeys defaultKeys [] ''/mnt/v#1'' ''c'' \<noteq>
   appendDefaultMountOptions defaultKeys (rev defaultKeys) [] ''/mnt/v#1'' ''c''"
  unfolding appendDefaultMountOptions_forward appendDefaultMountOptions_backward
  by (simp add: rangeOrder_defaultKeys)

text \<open>
  Claim C3, amended. Whatever the orders of the two visits, the result starts with the
  caller's flags in their order, and the tokens appended after them are the same up to
  their order: two evaluations on the same inputs yield the same multiset of tokens.
  The order of the first visit has no effect at all, and for a given order of the second
  visit the appended tokens are, in that order, the defaults of which no caller flag
  has the key as a prefix.
\<close>

theorem appendDefaultMountOptions_permutation:
  assumes "rangeOrder v1" and "rangeOrder v2" and "rangeOrder w1" and "rangeOrder w2"
  shows "take (length flags) (appendDefaultMountOptions v1 v2 flags t c) = flags \<and>
         mset (appendDefaultMountOptions v1 v2 flags t c) =
           mset (appendDefaultMountOptions w1 w2 flags t c) \<and>
         appendDefaultMountOptions w1 v2 flags t c = appendDefaultMountOptions v1 v2 flags t c \<and>
         drop (length flags) (appendDefaultMountOptions v1 v2 flags t c) =
           concat (map (emitDefault {k \<in> set defaultKeys. \<exists>m \<in> set flags. HasPrefix m k}
                          (defaultMountOptions t c)) v2)"
proof -
  let ?inc = "{k \<in> set defaultKeys. \<exists>m \<in> set flags. HasPrefix m k}"
  let ?emit = "emitDefault ?inc (defaultMountOptions t c)"
  have inc: "markIncluded v1 flags = ?inc" "markIncluded w1 flags = ?inc"
    using assms(1,3) by (simp_all add: markIncluded_eq rangeOrder_set)
  have eq: "appendDefaultMountOptions v1 v2 flags t c = flags @ concat (map ?emit v2)"
           "appendDefaultMountOptions w1 v2 flags t c = flags @ concat (map ?emit v2)"
           "appendDefaultMountOptions w1 w2 flags t c = flags @ concat (map ?emit w2)"
    by (simp_all only: appendDefaultMountOptions_eq inc)
  have "mset v2 = mset w2" using assms(2,4) by (simp add: rangeOrder_def)
  then have m: "mset (concat (map ?emit v2)) = mset (concat (map ?emit w2))"
    by (rule mset_concat_map_cong)
  show ?thesis
    unfolding eq using m by simp
qed

theorem appendDefaultMountOptions_permutation_witness:
  "rangeOrder defaultKeys \<and> rangeOrder (rev defaultKeys) \<and>
   take 1 (appendDefaultMountOptions defaultKeys (rev defaultKeys) [''--tmp-path=/custom'']
             ''/mnt/v#1'' ''c'') = [''--tmp-path=/custom''] \<and>
   mset (appendDefaultMountOptions defaultKeys (rev defaultKeys) [''--tmp-path=/custom'']
           ''/mnt/v#1'' ''c'') =
   mset (appendDefaultMountOptions (rev defaultKeys) defaultKeys [''--tmp-path=/custom'']
           ''/mnt/v#1'' ''c'')"
proof -
  have t: "take (length [''--tmp-path=/custom''])
            (appendDefaultMountOptions defaultKeys (rev defaultKeys) [''--tmp-path=/custom'']
             ''/mnt/v#1'' ''c'') = [''--tmp-path=/custom'']"
    and m: "mset (appendDefaultMountOptions defaultKeys (rev defaultKeys) [''--tmp-path=/custom'']
           ''/mnt/v#1'' ''c'') =
      mset (appendDefaultMountOptions (rev defaultKeys) defaultKeys [''--tmp-path=/custom'']
           ''/mnt/v#1'' ''c'')"
    using appendDefaultMountOptions_permutation[OF rangeOrder_defaultKeys(1)
          rangeOrder_defaultKeys(2) rangeOrder_defaultKeys(2) rangeOrder_defaultKeys(1),
          of "[''--tmp-path=/custom'']" "''/mnt/v#1''" "''c''"]
    by blast+
  have l: "length [''--tmp-path=/custom''] = 1" by simp
  show ?thesis
    using t m rangeOrder_defaultKeys unfolding l by blast
qed

text \<open>A caller flag \<open>--tmp-path=/custom\<close> suppresses the default temporary path.\<close>

lemma appendDefaultMountOptions_caller_wins:
  "appendDefaultMountOptions defaultKeys defaultKeys [''--tmp-path=/custom''] ''/mnt/v#1'' ''c'' =
     [''--tmp-path=/custom'', ''--pre-mount-validate=true'', ''--use-https=true'',
      ''--container-name=c'', ''--cancel-list-on-mount-seconds=60'']"
  by code_simp

section \<open>Credential resolution: properties\<close>

text \<open>\<open>HasPrefix\<close> and \<open>Contains\<close> in terms of concatenation.\<close>

lemma HasPrefix_iff: "HasPrefix s p \<longleftrightarrow> (\<exists>b. s = p @ b)"
proof
  assume "HasPrefix s p"
  then have "s = p @ drop (length p) s"
    by (metis HasPrefix_def append_take_drop_id)
  then show "\<exists>b. s = p @ b" by blast
next
  assume "\<exists>b. s = p @ b"
  then show "HasPrefix s p" by (auto simp: HasPrefix_def)
qed

lemma Contains_iff: "Contains s sub \<longleftrightarrow> (\<exists>a b. s = a @ sub @ b)"
proof (induction s)
  case Nil
  then show ?case by simp
next
  case (Cons x xs)
  show ?case
  proof
    assume "Contains (x # xs) sub"
    then consider "HasPrefix (x # xs) sub" | "Contains xs sub" by auto
    then show "\<exists>a b. x # xs = a @ sub @ b"
    proof cases
      case 1
      then obtain b where "x # xs = sub @ b" using HasPrefix_iff by blast
      then have "x # xs = [] @ sub @ b" by simp
      then show ?thesis by blast
    next
      case 2
      then obtain a b where "xs = a @ sub @ b" using Cons.IH by blast
      then have "x # xs = (x # a) @ sub @ b" by simp
      then show ?thesis by blast
    qed
  next
    assume "\<exists>a b. x # xs = a @ sub @ b"
    then obtain a b where ab: "x # xs = a @ sub @ b" by blast
    show "Contains (x # xs) sub"
    proof (cases a)
      case Nil
      then have "HasPrefix (x # xs) sub" using ab HasPrefix_iff by auto
      then show ?thesis by simp
    next
      case (Cons y a')
      then have "xs = a' @ sub @ b" using ab by simp
      then have "Contains xs sub" using Cons.IH by blast
      then show ?thesis by simp
    qed
  qed
qed

text \<open>A key is taken for a SAS token exactly when \<open>?sv=\<close> occurs in it.\<close>

lemma isSASToken_iff: "isSASToken key \<longleftrightarrow> (\<exists>a b. key = a @ ''?sv='' @ b)"
  unfolding isSASToken_def by (rule Contains_iff)

lemma isSASToken_nonempty: "isSASToken key \<Longrightarrow> key \<noteq> []"
  by (auto simp: isSASToken_def HasPrefix_def)

lemma attribStep_no_key_material:
  assumes "\<forall>x \<in> set (av_authEnv s). \<not> isSasEntry x \<and> \<not> isKeyEntry x"
  shows "\<forall>x \<in> set (av_authEnv (attribStep u kv s)). \<not> isSasEntry x \<and> \<not> isKeyEntry x"
  using assms by (simp add: attribStep_def Let_def isSasEntry_def isKeyEntry_def HasPrefix_def)

lemma fold_attribStep_no_key_material:
  "\<forall>x \<in> set (av_authEnv s). \<not> isSasEntry x \<and> \<not> isKeyEntry x \<Longrightarrow>
   \<forall>x \<in> set (av_authEnv (fold (attribStep u) attrib s)). \<not> isSasEntry x \<and> \<not> isKeyEntry x"
proof (induction attrib arbitrary: s)
  case Nil
  then show ?case by simp
next
  case (Cons kv attrib)
  show ?case
    using Cons.IH[OF attribStep_no_key_material[OF Cons.prems]] by simp
qed

text \<open>The loop over the attributes never adds a SAS token or an account key.\<close>

lemma attribVarsOf_no_key_material:
  "\<forall>x \<in> set (av_authEnv (attribVarsOf u v attrib)). \<not> isSasEntry x \<and> \<not> isKeyEntry x"
proof -
  obtain rg acc cont where
    "(case GetContainerInfo v of Inl _ \<Rightarrow> ([], [], []) | Inr t \<Rightarrow> t) = (rg, acc, cont)"
    using prod_cases3 by blast
  then show ?thesis
    unfolding attribVarsOf_def Let_def
    by (simp only: prod.case) (rule fold_attribStep_no_key_material, simp)
qed

lemma sas_not_key: "\<not> isKeyEntry (''AZURE_STORAGE_SAS_TOKEN='' @ k)"
  by (simp add: isKeyEntry_def HasPrefix_def)

lemma key_not_sas: "\<not> isSasEntry (''AZURE_STORAGE_ACCESS_KEY='' @ k)"
  by (simp add: isSasEntry_def HasPrefix_def)

lemma sas_is_sas: "isSasEntry (''AZURE_STORAGE_SAS_TOKEN='' @ k)"
  by (simp add: isSasEntry_def HasPrefix_def)

lemma key_is_key: "isKeyEntry (''AZURE_STORAGE_ACCESS_KEY='' @ k)"
  by (simp add: isKeyEntry_def HasPrefix_def)

lemma keyCount_Nil [simp]: "keyCount [] = 0"
  by (simp add: keyCount_def)

lemma keyCount_append: "keyCount (xs @ ys) = keyCount xs + keyCount ys"
  by (simp add: keyCount_def)

lemma keyCount_clean:
  "\<forall>x \<in> set env. \<not> isSasEntry x \<and> \<not> isKeyEntry x \<Longrightarrow> keyCount env = 0"
  by (simp add: keyCount_def)

lemma keyCount_sas: "keyCount [''AZURE_STORAGE_SAS_TOKEN='' @ k] = 1"
  using sas_is_sas[of k] sas_not_key[of k] by (simp add: keyCount_def del: append.simps)

lemma keyCount_key: "keyCount [''AZURE_STORAGE_ACCESS_KEY='' @ k] = 1"
  using key_is_key[of k] key_not_sas[of k] by (simp add: keyCount_def del: append.simps)

lemma finishAuthEnv_container [simp]:
  "fst (snd (finishAuthEnv v acc c env key sas err)) = c"
  by (simp add: finishAuthEnv_def Let_def)

lemma finishAuthEnv_error [simp]:
  "snd (snd (snd (finishAuthEnv v acc c env key sas err))) =
     (if c = [] then Some (ErrNoContainerName v) else err)"
  by (simp add: finishAuthEnv_def Let_def)

lemma finishAuthEnv_authEnv:
  "fst (snd (snd (finishAuthEnv v acc c env key sas err))) =
     env @ (if sas \<noteq> [] then [''AZURE_STORAGE_SAS_TOKEN='' @ sas] else [])
         @ (if key \<noteq> [] then [''AZURE_STORAGE_ACCESS_KEY='' @ key] else [])"
  by (simp add: finishAuthEnv_def Let_def)

lemma finishAuthEnv_eq:
  "finishAuthEnv v acc c env key sas err =
     (acc, c,
      env @ (if sas \<noteq> [] then [''AZURE_STORAGE_SAS_TOKEN='' @ sas] else [])
          @ (if key \<noteq> [] then [''AZURE_STORAGE_ACCESS_KEY='' @ key] else []),
      if c = [] then Some (ErrNoContainerName v) else err)"
  by (simp add: finishAuthEnv_def Let_def)

lemma finishAuthEnv_keyCount:
  assumes "\<forall>x \<in> set authEnv. \<not> isSasEntry x \<and> \<not> isKeyEntry x" "key = [] \<or> sas = []"
  shows "keyCount (fst (snd (snd (finishAuthEnv v a c authEnv key sas err)))) \<le> 1"
  using assms(2) keyCount_clean[OF assms(1)]
  by (auto simp add: finishAuthEnv_authEnv keyCount_append keyCount_sas keyCount_key
           simp del: append.simps)

lemma finishAuthEnv_keyCount_one:
  assumes "\<forall>x \<in> set authEnv. \<not> isSasEntry x \<and> \<not> isKeyEntry x"
      and "(key = [] \<and> sas \<noteq> []) \<or> (key \<noteq> [] \<and> sas = [])"
  shows "keyCount (fst (snd (snd (finishAuthEnv v a c authEnv key sas err)))) = 1"
  using assms(2) keyCount_clean[OF assms(1)]
  by (auto simp add: finishAuthEnv_authEnv keyCount_append keyCount_sas keyCount_key
           simp del: append.simps)

text \<open>The four branches of \<open>GetAuthEnv\<close>.\<close>

lemma GetAuthEnv_nfs:
  "GetAuthEnv d e v nfs attrib secrets h =
     ((av_accountName (attribVarsOf (unicodeOps e) v attrib),
       av_containerName (attribVarsOf (unicodeOps e) v attrib),
       av_authEnv (attribVarsOf (unicodeOps e) v attrib), None), h)"
  by (simp add: GetAuthEnv_def Let_def)

lemma GetAuthEnv_vault:
  assumes "protocol \<noteq> nfs" "av_keyVaultURL (attribVarsOf (unicodeOps e) v attrib) \<noteq> []"
  shows "GetAuthEnv d e v protocol attrib secrets h =
     (let a = attribVarsOf (unicodeOps e) v attrib;
          (key, kerr) = keyVaultSecret e h (av_keyVaultURL a) (av_keyVaultSecretName a)
                          (av_keyVaultSecretVersion a);
          h1 = h @ [KeyVaultSecret_call (av_keyVaultURL a) (av_keyVaultSecretName a)
                          (av_keyVaultSecretVersion a)]
      in case kerr of
           Some er \<Rightarrow> ((av_accountName a, av_containerName a, av_authEnv a, Some er), h1)
         | None \<Rightarrow>
             (finishAuthEnv v (av_accountName a) (av_containerName a) (av_authEnv a)
                (if isSASToken key then [] else key) (if isSASToken key then key else []) None, h1))"
  using assms
  by (simp add: GetAuthEnv_def Let_def getKeyVaultSecretContent_def split: prod.splits option.splits)

lemma GetAuthEnv_inline:
  assumes "protocol \<noteq> nfs" "av_keyVaultURL (attribVarsOf (unicodeOps e) v attrib) = []"
      and "secrets \<noteq> []"
  shows "GetAuthEnv d e v protocol attrib secrets h =
     (let a = attribVarsOf (unicodeOps e) v attrib;
          s = fold (secretStep (unicodeOps e)) secrets
                     \<lparr>sc_accountName = av_accountName a, sc_accountKey = [],
                      sc_accountSasToken = [], sc_authEnv = av_authEnv a\<rparr>
      in (finishAuthEnv v (sc_accountName s) (av_containerName a) (sc_authEnv s)
                 (sc_accountKey s) (sc_accountSasToken s) None, h))"
  using assms
  by (simp add: GetAuthEnv_def Let_def)

lemma GetAuthEnv_named:
  assumes "protocol \<noteq> nfs" "av_keyVaultURL (attribVarsOf (unicodeOps e) v attrib) = []"
      and "secrets = []"
  shows "GetAuthEnv d e v protocol attrib secrets h =
     (let a = attribVarsOf (unicodeOps e) v attrib in
      case keyFromSecretOrCloud e a (resourceGroupOf d v) (secretNamespaceOf a) h of
             (Inl (accountName, er), h1) \<Rightarrow>
               ((accountName, av_containerName a, av_authEnv a, Some er), h1)
           | (Inr (accountName, accountKey, err), h1) \<Rightarrow>
               (finishAuthEnv v accountName (av_containerName a) (av_authEnv a) accountKey [] err, h1))"
  using assms
  by (simp add: GetAuthEnv_def Let_def)

text \<open>
  Without a secret name to look up, or with the authentication type \<open>msi\<close>, neither the
  secret store nor the cloud account is asked, and no error is pending.
\<close>

lemma keyFromSecretOrCloud_skipped:
  assumes "EqualFold (unicodeOps e) (av_azureStorageAuthType a) ''msi'' \<or>
           (av_secretName a = [] \<and> av_accountName a = [])"
  shows "keyFromSecretOrCloud e a rg ns h = (Inr (av_accountName a, [], None), h)"
  using assms by (auto simp: keyFromSecretOrCloud_def Let_def)

text \<open>
  Claim C2, as stated: for the protocol \<open>fuse\<close> a successful \<open>GetAuthEnv\<close> yields an
  environment with exactly one of SAS token, account key and identity variables, never
  both a SAS token and an account key and never none of the three. Request secrets that
  hold both an account key and a SAS token give an environment with both entries, and
  request secrets that hold only an account name give an empty environment; both calls
  succeed.
\<close>

theorem GetAuthEnv_inline_secrets_counterexample:
  "GetAuthEnv driver0 hostEnv ''rg1#acct1#cont1#abc123'' fuse []
     [(''accountkey'', ''k''), (''azurestorageaccountsastoken'', ''?sv=2020&sig=x'')] [] =
     ((''acct1'', ''cont1'',
       [''AZURE_STORAGE_SAS_TOKEN=?sv=2020&sig=x'', ''AZURE_STORAGE_ACCESS_KEY=k''], None), []) \<and>
   GetAuthEnv driver0 hostEnv ''rg1#acct1#cont1#abc123'' fuse []
     [(''accountname'', ''acct1'')] [] = ((''acct1'', ''cont1'', [], None), [])"
  by code_simp

text \<open>
  Claim C2, amended. For every protocol other than \<open>nfs\<close>, when the key material does
  not come from the request secrets (a key-vault URL is present, or the request has no
  secrets), the environment returned by \<open>GetAuthEnv\<close> holds at most one entry of key
  material, a SAS token or an account key and never both; it holds exactly one when a
  key-vault URL is present and the key vault returns a value that is not empty.
\<close>

theorem GetAuthEnv_at_most_one_key_entry:
  assumes "protocol \<noteq> nfs"
      and "av_keyVaultURL (attribVarsOf (unicodeOps e) v attrib) \<noteq> [] \<or> secrets = []"
  shows "keyCount (fst (snd (snd (fst (GetAuthEnv d e v protocol attrib secrets h))))) \<le> 1 \<and>
         (av_keyVaultURL (attribVarsOf (unicodeOps e) v attrib) \<noteq> [] \<and>
          keyVaultSecret e h (av_keyVaultURL (attribVarsOf (unicodeOps e) v attrib)) (av_keyVaultSecretName (attribVarsOf (unicodeOps e) v attrib))
              (av_keyVaultSecretVersion (attribVarsOf (unicodeOps e) v attrib)) = (key, None) \<and> key \<noteq> [] \<longrightarrow>
          keyCount (fst (snd (snd (fst (GetAuthEnv d e v protocol attrib secrets h))))) = 1)"
proof -
  let ?a = "attribVarsOf (unicodeOps e) v attrib"
  have inv: "\<forall>x \<in> set (av_authEnv ?a). \<not> isSasEntry x \<and> \<not> isKeyEntry x"
    by (rule attribVarsOf_no_key_material)
  have base: "keyCount (av_authEnv ?a) \<le> 1"
    using keyCount_clean[OF inv] by simp
  have fin: "\<And>acc c key sas err. key = [] \<or> sas = [] \<Longrightarrow>
     keyCount (fst (snd (snd (finishAuthEnv v acc c (av_authEnv ?a) key sas err)))) \<le> 1"
    using finishAuthEnv_keyCount[OF inv] by blast
  have one: "\<And>acc c key sas err. (key = [] \<and> sas \<noteq> []) \<or> (key \<noteq> [] \<and> sas = []) \<Longrightarrow>
     keyCount (fst (snd (snd (finishAuthEnv v acc c (av_authEnv ?a) key sas err)))) = 1"
    using finishAuthEnv_keyCount_one[OF inv] by blast
  show ?thesis
  proof (cases "av_keyVaultURL ?a \<noteq> []")
    case True
    show ?thesis
      unfolding GetAuthEnv_vault[OF assms(1) True] Let_def
      using base fin one True
      by (auto simp: isSASToken_nonempty split: prod.splits option.splits)
  next
    case False
    then have kv: "av_keyVaultURL ?a = []" and s: "secrets = []" using assms(2) by simp_all
    show ?thesis
      unfolding GetAuthEnv_named[OF assms(1) kv s] Let_def
      using base fin kv by (simp split: prod.splits sum.splits)
  qed
qed

theorem GetAuthEnv_at_most_one_key_entry_witness:
  "fuse \<noteq> nfs \<and>
   av_keyVaultURL (attribVarsOf (unicodeOps (keyVaultEnv ''k?sv=1'')) ''rg1#acct1#cont1#abc123'' [(''keyVaultURL'', ''https://kv.vault.azure.net'')]) \<noteq> [] \<and>
   keyVaultSecret (keyVaultEnv ''k?sv=1'') [] (av_keyVaultURL (attribVarsOf (unicodeOps (keyVaultEnv ''k?sv=1'')) ''rg1#acct1#cont1#abc123'' [(''keyVaultURL'', ''https://kv.vault.azure.net'')])) (av_keyVaultSecretName (attribVarsOf (unicodeOps (keyVaultEnv ''k?sv=1'')) ''rg1#acct1#cont1#abc123'' [(''keyVaultURL'', ''https://kv.vault.azure.net'')]))
              (av_keyVaultSecretVersion (attribVarsOf (unicodeOps (keyVaultEnv ''k?sv=1'')) ''rg1#acct1#cont1#abc123'' [(''keyVaultURL'', ''https://kv.vault.azure.net'')])) = (''k?sv=1'', None) \<and>
   keyCount (fst (snd (snd (fst (GetAuthEnv driver0 (keyVaultEnv ''k?sv=1'') ''rg1#acct1#cont1#abc123'' fuse [(''keyVaultURL'', ''https://kv.vault.azure.net'')] [(''accountkey'', ''k''), (''azurestorageaccountsastoken'', ''?sv=2020&sig=x'')] []))))) = 1"
proof -
  have p: "fuse \<noteq> nfs" by simp
  have k: "av_keyVaultURL (attribVarsOf (unicodeOps (keyVaultEnv ''k?sv=1'')) ''rg1#acct1#cont1#abc123'' [(''keyVaultURL'', ''https://kv.vault.azure.net'')]) \<noteq> []"
    by code_simp
  have f: "keyVaultSecret (keyVaultEnv ''k?sv=1'') [] (av_keyVaultURL (attribVarsOf (unicodeOps (keyVaultEnv ''k?sv=1'')) ''rg1#acct1#cont1#abc123'' [(''keyVaultURL'', ''https://kv.vault.azure.net'')])) (av_keyVaultSecretName (attribVarsOf (unicodeOps (keyVaultEnv ''k?sv=1'')) ''rg1#acct1#cont1#abc123'' [(''keyVaultURL'', ''https://kv.vault.azure.net'')]))
              (av_keyVaultSecretVersion (attribVarsOf (unicodeOps (keyVaultEnv ''k?sv=1'')) ''rg1#acct1#cont1#abc123'' [(''keyVaultURL'', ''https://kv.vault.azure.net'')])) = (''k?sv=1'', None)"
    by code_simp
  have n: "''k?sv=1'' \<noteq> []" by simp
  show ?thesis
    using GetAuthEnv_at_most_one_key_entry[OF p disjI1[OF k], where d = driver0 and h = "[]"
            and key = "''k?sv=1''"
            and secrets = "[(''accountkey'', ''k''), (''azurestorageaccountsastoken'', ''?sv=2020&sig=x'')]"]
          p k f n
    by blast
qed

text \<open>
  Claim C8, as stated: whenever the attributes hold a key-vault URL, \<open>GetAuthEnv\<close> uses
  the fetched key-vault secret for key material. For the protocol \<open>nfs\<close> it returns
  before the key vault is asked: with a key-vault URL and a key vault that would answer
  with a SAS token, no call is made and the environment holds no key material.
\<close>

theorem GetAuthEnv_nfs_skips_key_vault_counterexample:
  "av_keyVaultURL (attribVarsOf (unicodeOps (keyVaultEnv ''k?sv=1'')) ''rg1#acct1#cont1#abc123''
                     [(''keyVaultURL'', ''https://kv.vault.azure.net'')]) =
     ''https://kv.vault.azure.net'' \<and>
   GetAuthEnv driver0 (keyVaultEnv ''k?sv=1'') ''rg1#acct1#cont1#abc123'' nfs
     [(''keyVaultURL'', ''https://kv.vault.azure.net'')] [] [] =
     ((''acct1'', ''cont1'', [], None), [])"
  by code_simp

text \<open>
  Claim C8, amended. When the attributes hold a key-vault URL, the result of
  \<open>GetAuthEnv\<close> is the same whatever the request secrets, the secret store and the cloud
  account resolver are. For the protocol \<open>nfs\<close> it makes no call and adds no key
  material. For every other protocol its only call is the fetch from the key vault: an
  error of the fetch is returned as it is; otherwise the fetched value is appended as
  a SAS token if \<open>?sv=\<close> occurs in it, as an account key if not (nothing is appended
  for an empty value), and the only error left is the one of an empty container name.
\<close>

theorem GetAuthEnv_keyVault_exclusive:
  assumes "av_keyVaultURL (attribVarsOf (unicodeOps e) v attrib) \<noteq> []"
  shows "GetAuthEnv d e v protocol attrib secrets h =
           GetAuthEnv d (e\<lparr>kubeClient := kc, cloudGetStorageAccesskey := ck\<rparr>) v protocol attrib
             secrets' h
       \<and> (protocol = nfs \<longrightarrow>
            GetAuthEnv d e v protocol attrib secrets h =
              ((av_accountName (attribVarsOf (unicodeOps e) v attrib), av_containerName (attribVarsOf (unicodeOps e) v attrib),
                av_authEnv (attribVarsOf (unicodeOps e) v attrib), None), h))
       \<and> (protocol \<noteq> nfs \<longrightarrow>
            GetAuthEnv d e v protocol attrib secrets h =
              (case keyVaultSecret e h (av_keyVaultURL (attribVarsOf (unicodeOps e) v attrib)) (av_keyVaultSecretName (attribVarsOf (unicodeOps e) v attrib))
              (av_keyVaultSecretVersion (attribVarsOf (unicodeOps e) v attrib)) of
                 (key, Some er) \<Rightarrow>
                   (av_accountName (attribVarsOf (unicodeOps e) v attrib), av_containerName (attribVarsOf (unicodeOps e) v attrib),
                    av_authEnv (attribVarsOf (unicodeOps e) v attrib), Some er)
               | (key, None) \<Rightarrow>
                   (av_accountName (attribVarsOf (unicodeOps e) v attrib), av_containerName (attribVarsOf (unicodeOps e) v attrib),
                    av_authEnv (attribVarsOf (unicodeOps e) v attrib) @
                      (if \<exists>p s. key = p @ ''?sv='' @ s then [''AZURE_STORAGE_SAS_TOKEN='' @ key]
                       else if key \<noteq> [] then [''AZURE_STORAGE_ACCESS_KEY='' @ key] else []),
                    if av_containerName (attribVarsOf (unicodeOps e) v attrib) = []
                    then Some (ErrNoContainerName v) else None),
               h @ [KeyVaultSecret_call (av_keyVaultURL (attribVarsOf (unicodeOps e) v attrib)) (av_keyVaultSecretName (attribVarsOf (unicodeOps e) v attrib))
              (av_keyVaultSecretVersion (attribVarsOf (unicodeOps e) v attrib))]))"
proof (cases "protocol = nfs")
  case True
  then show ?thesis by (simp add: GetAuthEnv_nfs)
next
  case False
  have sas: "\<And>key. (\<exists>p s. key = p @ ''?sv='' @ s) = isSASToken key"
    by (simp only: isSASToken_iff)
  show ?thesis
    unfolding sas
    using False assms
    by (auto simp: GetAuthEnv_vault Let_def finishAuthEnv_eq isSASToken_nonempty
             split: prod.splits option.splits simp del: append.simps)
qed

theorem GetAuthEnv_keyVault_exclusive_witness:
  "GetAuthEnv driver0 (keyVaultEnv ''k?sv=1'') ''rg1#acct1#cont1#abc123'' fuse
      [(''keyVaultURL'', ''https://kv.vault.azure.net'')] [(''accountkey'', ''inline'')] [] =
     ((''acct1'', ''cont1'', [''AZURE_STORAGE_SAS_TOKEN=k?sv=1''], None),
      [KeyVaultSecret_call ''https://kv.vault.azure.net'' [] []]) \<and>
   GetAuthEnv driver0 (keyVaultEnv ''rawkey'') ''rg1#acct1#cont1#abc123'' fuse
      [(''keyVaultURL'', ''https://kv.vault.azure.net'')] [(''accountkey'', ''inline'')] [] =
     ((''acct1'', ''cont1'', [''AZURE_STORAGE_ACCESS_KEY=rawkey''], None),
      [KeyVaultSecret_call ''https://kv.vault.azure.net'' [] []]) \<and>
   GetAuthEnv driver0 (keyVaultEnv ''rawkey'') ''rg1#acct1#cont1#abc123'' fuse
      [(''keyVaultURL'', ''https://kv.vault.azure.net'')] [(''accountkey'', ''inline'')] [] =
   GetAuthEnv driver0
      ((keyVaultEnv ''rawkey'')\<lparr>kubeClient := Some (\<lambda>h ns name. Inr [(''azurestorageaccountkey'', ''stored'')]),
                                 cloudGetStorageAccesskey := (\<lambda>h a rg. (''cloud'', None))\<rparr>)
      ''rg1#acct1#cont1#abc123'' fuse
      [(''keyVaultURL'', ''https://kv.vault.azure.net'')] [] []"
proof -
  let ?attrib = "[(''keyVaultURL'', ''https://kv.vault.azure.net'')]"
  let ?v = "''rg1#acct1#cont1#abc123''"
  have k1: "av_keyVaultURL (attribVarsOf (unicodeOps (keyVaultEnv ''k?sv=1'')) ?v ?attrib) \<noteq> []"
    by code_simp
  have k2: "av_keyVaultURL (attribVarsOf (unicodeOps (keyVaultEnv ''rawkey'')) ?v ?attrib) \<noteq> []"
    by code_simp
  have a1: "attribVarsOf (unicodeOps (keyVaultEnv ''k?sv=1'')) ?v ?attrib =
      \<lparr>av_accountName = ''acct1'', av_containerName = ''cont1'', av_secretName = [],
       av_secretNamespace = [], av_keyVaultURL = ''https://kv.vault.azure.net'',
       av_keyVaultSecretName = [], av_keyVaultSecretVersion = [],
       av_azureStorageAuthType = [], av_authEnv = [], av_getAccountKeyFromSecret = False\<rparr>"
    by code_simp
  have a2: "attribVarsOf (unicodeOps (keyVaultEnv ''rawkey'')) ?v ?attrib =
      \<lparr>av_accountName = ''acct1'', av_containerName = ''cont1'', av_secretName = [],
       av_secretNamespace = [], av_keyVaultURL = ''https://kv.vault.azure.net'',
       av_keyVaultSecretName = [], av_keyVaultSecretVersion = [],
       av_azureStorageAuthType = [], av_authEnv = [], av_getAccountKeyFromSecret = False\<rparr>"
    by code_simp
  have f1: "\<And>h u n w. keyVaultSecret (keyVaultEnv ''k?sv=1'') h u n w = (''k?sv=1'', None)"
    by (simp add: keyVaultEnv_def hostEnv_def)
  have f2: "\<And>h u n w. keyVaultSecret (keyVaultEnv ''rawkey'') h u n w = (''rawkey'', None)"
    by (simp add: keyVaultEnv_def hostEnv_def)
  have m1: "\<exists>p s. ''k?sv=1'' = p @ ''?sv='' @ s"
  proof -
    have "''k?sv=1'' = ''k'' @ ''?sv='' @ ''1''" by simp
    then show ?thesis by blast
  qed
  have "\<not> isSASToken ''rawkey''" by code_simp
  then have m2: "\<not> (\<exists>p s. ''rawkey'' = p @ ''?sv='' @ s)"
    using isSASToken_iff[of "''rawkey''"] by blast
  have n: "fuse \<noteq> nfs" by simp
  note t1 = GetAuthEnv_keyVault_exclusive[OF k1, where d = driver0 and protocol = fuse
        and secrets = "[(''accountkey'', ''inline'')]" and h = "[]"
        and kc = "Some (\<lambda>h ns name. Inr [(''azurestorageaccountkey'', ''stored'')])"
        and ck = "(\<lambda>h a rg. (''cloud'', None))" and secrets' = "[]"]
  note t2 = GetAuthEnv_keyVault_exclusive[OF k2, where d = driver0 and protocol = fuse
        and secrets = "[(''accountkey'', ''inline'')]" and h = "[]"
        and kc = "Some (\<lambda>h ns name. Inr [(''azurestorageaccountkey'', ''stored'')])"
        and ck = "(\<lambda>h a rg. (''cloud'', None))" and secrets' = "[]"]
  have r1: "GetAuthEnv driver0 (keyVaultEnv ''k?sv=1'') ?v fuse ?attrib [(''accountkey'', ''inline'')] [] =
     ((''acct1'', ''cont1'', [''AZURE_STORAGE_SAS_TOKEN=k?sv=1''], None),
      [KeyVaultSecret_call ''https://kv.vault.azure.net'' [] []])"
    using t1[THEN conjunct2, THEN conjunct2, THEN mp, OF n]
    unfolding a1 f1 prod.case option.case if_P[OF m1] by simp
  have r2: "GetAuthEnv driver0 (keyVaultEnv ''rawkey'') ?v fuse ?attrib [(''accountkey'', ''inline'')] [] =
     ((''acct1'', ''cont1'', [''AZURE_STORAGE_ACCESS_KEY=rawkey''], None),
      [KeyVaultSecret_call ''https://kv.vault.azure.net'' [] []])"
    using t2[THEN conjunct2, THEN conjunct2, THEN mp, OF n]
    unfolding a2 f2 prod.case option.case if_not_P[OF m2] by simp
  show ?thesis using r1 r2 t2[THEN conjunct1] by (intro conjI)
qed

text \<open>
  Claim C6, as stated: for every protocol, \<open>GetAuthEnv\<close> returns an error when neither
  the attributes nor the volume id yield a container name. For the protocol \<open>nfs\<close> it
  returns before the container name is checked: a volume id without any \<open>#\<close> and no
  attributes give an empty container name and no error.
\<close>

theorem GetAuthEnv_nfs_no_container_counterexample:
  "GetAuthEnv driver0 hostEnv ''malformed'' nfs [] [] [] = (([], [], [], None), [])"
  by code_simp

text \<open>
  Claim C6, amended. For every protocol other than \<open>nfs\<close>, whenever neither the
  attributes nor the parsed volume id yield a container name, \<open>GetAuthEnv\<close> returns an
  error; for \<open>nfs\<close> it never returns an error. A malformed volume id alone is not an
  error when the attributes supply the container name: the container name returned is
  the one the attributes and the volume id yield, the error of parsing the volume id is
  dropped, and with a container name that is not empty the error returned is the one of
  the credential lookup, if any (the fetch from the key vault with a key-vault URL;
  none with request secrets; the lookup in the secret store and the cloud account
  otherwise, which is skipped without a secret name or with the authentication type
  \<open>msi\<close>).
\<close>

theorem GetAuthEnv_missing_container:
  "fst (snd (fst (GetAuthEnv d e v protocol attrib secrets h))) = av_containerName (attribVarsOf (unicodeOps e) v attrib)
   \<and> (protocol \<noteq> nfs \<and> av_containerName (attribVarsOf (unicodeOps e) v attrib) = [] \<longrightarrow>
        snd (snd (snd (fst (GetAuthEnv d e v protocol attrib secrets h)))) \<noteq> None)
   \<and> (protocol = nfs \<longrightarrow> snd (snd (snd (fst (GetAuthEnv d e v protocol attrib secrets h)))) = None)
   \<and> (protocol \<noteq> nfs \<and> av_containerName (attribVarsOf (unicodeOps e) v attrib) \<noteq> [] \<longrightarrow>
        snd (snd (snd (fst (GetAuthEnv d e v protocol attrib secrets h)))) =
          (if av_keyVaultURL (attribVarsOf (unicodeOps e) v attrib) \<noteq> []
           then snd (keyVaultSecret e h (av_keyVaultURL (attribVarsOf (unicodeOps e) v attrib)) (av_keyVaultSecretName (attribVarsOf (unicodeOps e) v attrib))
              (av_keyVaultSecretVersion (attribVarsOf (unicodeOps e) v attrib)))
           else if secrets \<noteq> [] then None
           else (case fst (keyFromSecretOrCloud e (attribVarsOf (unicodeOps e) v attrib) (resourceGroupOf d v)
                          (secretNamespaceOf (attribVarsOf (unicodeOps e) v attrib)) h) of
                   Inl (accountName, er) \<Rightarrow> Some er
                 | Inr (accountName, accountKey, err) \<Rightarrow> err)))
   \<and> (protocol \<noteq> nfs \<and> av_containerName (attribVarsOf (unicodeOps e) v attrib) \<noteq> [] \<and>
       av_keyVaultURL (attribVarsOf (unicodeOps e) v attrib) = [] \<and> secrets = [] \<and>
       (EqualFold (unicodeOps e) (av_azureStorageAuthType (attribVarsOf (unicodeOps e) v attrib)) ''msi'' \<or>
        (av_secretName (attribVarsOf (unicodeOps e) v attrib) = [] \<and> av_accountName (attribVarsOf (unicodeOps e) v attrib) = [])) \<longrightarrow>
        snd (snd (snd (fst (GetAuthEnv d e v protocol attrib secrets h)))) = None)"
proof (cases "protocol = nfs")
  case True
  then show ?thesis by (simp add: GetAuthEnv_nfs)
next
  case nn: False
  show ?thesis
  proof (cases "av_keyVaultURL (attribVarsOf (unicodeOps e) v attrib) \<noteq> []")
    case True
    show ?thesis
      unfolding GetAuthEnv_vault[OF nn True] Let_def
      using nn True by (simp split: prod.splits option.splits)
  next
    case False
    then have kv: "av_keyVaultURL (attribVarsOf (unicodeOps e) v attrib) = []" by simp
    show ?thesis
    proof (cases "secrets = []")
      case True
      have sk: "EqualFold (unicodeOps e) (av_azureStorageAuthType (attribVarsOf (unicodeOps e) v attrib)) ''msi'' \<or>
        (av_secretName (attribVarsOf (unicodeOps e) v attrib) = [] \<and> av_accountName (attribVarsOf (unicodeOps e) v attrib) = []) \<Longrightarrow>
        keyFromSecretOrCloud e (attribVarsOf (unicodeOps e) v attrib) (resourceGroupOf d v)
                          (secretNamespaceOf (attribVarsOf (unicodeOps e) v attrib)) h = (Inr (av_accountName (attribVarsOf (unicodeOps e) v attrib), [], None), h)"
        by (rule keyFromSecretOrCloud_skipped)
      show ?thesis
        unfolding GetAuthEnv_named[OF nn kv True] Let_def
        using nn True kv sk by (auto split: prod.splits sum.splits)
    next
      case False
      show ?thesis
        unfolding GetAuthEnv_inline[OF nn kv False] Let_def
        using nn False kv by simp
    qed
  qed
qed

theorem GetAuthEnv_missing_container_witness:
  "snd (snd (snd (fst (GetAuthEnv driver0 hostEnv ''malformed'' fuse []
                         [(''accountkey'', ''k'')] [])))) \<noteq> None \<and>
   snd (snd (snd (fst (GetAuthEnv driver0 hostEnv ''malformed'' fuse
                         [(''containerName'', ''cont1'')] [(''accountkey'', ''k'')] [])))) = None \<and>
   snd (snd (snd (fst (GetAuthEnv driver0 (keyVaultEnv ''rawkey'') ''malformed'' fuse
                         [(''containerName'', ''cont1''),
                          (''keyVaultURL'', ''https://kv.vault.azure.net'')] [] [])))) = None \<and>
   snd (snd (snd (fst (GetAuthEnv driver0 hostEnv ''malformed'' fuse
                         [(''containerName'', ''cont1''), (''AzureStorageAuthType'', ''MSI'')]
                         [] [])))) = None \<and>
   snd (snd (snd (fst (GetAuthEnv driver0 hostEnv ''malformed'' nfs [] [] [])))) = None"
proof -
  have n: "fuse \<noteq> nfs" by simp
  have c0: "av_containerName (attribVarsOf (unicodeOps hostEnv) ''malformed'' []) = []"
    by code_simp
  have r0: "snd (snd (snd (fst (GetAuthEnv driver0 hostEnv ''malformed'' fuse []
                         [(''accountkey'', ''k'')] [])))) \<noteq> None"
    using GetAuthEnv_missing_container[where d = driver0 and e = hostEnv and v = "''malformed''"
            and protocol = fuse and attrib = "[]" and secrets = "[(''accountkey'', ''k'')]"
            and h = "[]"] n c0
    by blast
  have c1: "av_containerName (attribVarsOf (unicodeOps hostEnv) ''malformed''
              [(''containerName'', ''cont1'')]) \<noteq> []"
       "av_keyVaultURL (attribVarsOf (unicodeOps hostEnv) ''malformed''
              [(''containerName'', ''cont1'')]) = []"
    by code_simp+
  have r1: "snd (snd (snd (fst (GetAuthEnv driver0 hostEnv ''malformed'' fuse
                         [(''containerName'', ''cont1'')] [(''accountkey'', ''k'')] [])))) = None"
    using GetAuthEnv_missing_container[where d = driver0 and e = hostEnv and v = "''malformed''"
            and protocol = fuse and attrib = "[(''containerName'', ''cont1'')]"
            and secrets = "[(''accountkey'', ''k'')]" and h = "[]"] n c1
    by simp
  have c2: "av_containerName (attribVarsOf (unicodeOps (keyVaultEnv ''rawkey'')) ''malformed''
              [(''containerName'', ''cont1''),
               (''keyVaultURL'', ''https://kv.vault.azure.net'')]) \<noteq> []"
       "av_keyVaultURL (attribVarsOf (unicodeOps (keyVaultEnv ''rawkey'')) ''malformed''
              [(''containerName'', ''cont1''),
               (''keyVaultURL'', ''https://kv.vault.azure.net'')]) \<noteq> []"
    by code_simp+
  have f2: "\<And>h u n w. snd (keyVaultSecret (keyVaultEnv ''rawkey'') h u n w) = None"
    by (simp add: keyVaultEnv_def hostEnv_def)
  have r2: "snd (snd (snd (fst (GetAuthEnv driver0 (keyVaultEnv ''rawkey'') ''malformed'' fuse
                         [(''containerName'', ''cont1''),
                          (''keyVaultURL'', ''https://kv.vault.azure.net'')] [] [])))) = None"
    using GetAuthEnv_missing_container[where d = driver0 and e = "keyVaultEnv ''rawkey''"
            and v = "''malformed''" and protocol = fuse
            and attrib = "[(''containerName'', ''cont1''),
                           (''keyVaultURL'', ''https://kv.vault.azure.net'')]"
            and secrets = "[]" and h = "[]"] n c2 f2
    by simp
  have c3: "av_containerName (attribVarsOf (unicodeOps hostEnv) ''malformed''
              [(''containerName'', ''cont1''), (''AzureStorageAuthType'', ''MSI'')]) \<noteq> []"
       "av_keyVaultURL (attribVarsOf (unicodeOps hostEnv) ''malformed''
              [(''containerName'', ''cont1''), (''AzureStorageAuthType'', ''MSI'')]) = []"
       "EqualFold (unicodeOps hostEnv)
          (av_azureStorageAuthType (attribVarsOf (unicodeOps hostEnv) ''malformed''
              [(''containerName'', ''cont1''), (''AzureStorageAuthType'', ''MSI'')])) ''msi''"
    by code_simp+
  have r3: "snd (snd (snd (fst (GetAuthEnv driver0 hostEnv ''malformed'' fuse
                         [(''containerName'', ''cont1''), (''AzureStorageAuthType'', ''MSI'')]
                         [] [])))) = None"
    using GetAuthEnv_missing_container[where d = driver0 and e = hostEnv
            and v = "''malformed''" and protocol = fuse
            and attrib = "[(''containerName'', ''cont1''), (''AzureStorageAuthType'', ''MSI'')]"
            and secrets = "[]" and h = "[]"] n c3
    by blast
  have r4: "snd (snd (snd (fst (GetAuthEnv driver0 hostEnv ''malformed'' nfs [] [] [])))) = None"
    using GetAuthEnv_missing_container[where d = driver0 and e = hostEnv and v = "''malformed''"
            and protocol = nfs and attrib = "[]" and secrets = "[]" and h = "[]"]
    by blast
  show ?thesis using r0 r1 r2 r3 r4 by blast
qed

section \<open>Staging: properties\<close>

lemma ensureMountPoint_mounted:
  assumes "isLikelyNotMountPoint e h t = (False, None)"
      and "readDir e (h @ [IsLikelyNotMountPoint_call t]) t = None"
  shows "ensureMountPoint e t h = ((True, None), h @ [IsLikelyNotMountPoint_call t, ReadDir_call t])"
  using assms
  by (simp add: ensureMountPoint_def IsLikelyNotMountPoint_def ReadDir_def)

text \<open>
  Claim C9. When the target path is already a valid mount point as \<open>NodeStageVolume\<close>
  is called (the mounter reports a mount point and its directory can be read), the
  request succeeds after these two probes alone: no mount is handed to the mount
  executor, no credential is resolved, and the lock of the volume is free again.
\<close>

theorem NodeStageVolume_already_mounted:
  assumes "VolumeId req \<noteq> []" and "StagingTargetPath req \<noteq> []"
      and "VolumeCapability req \<noteq> None"
      and "VolumeId req \<notin> volumeLocks st"
      and "isLikelyNotMountPoint e (calls st) (StagingTargetPath req) = (False, None)"
      and "readDir e (calls st @ [IsLikelyNotMountPoint_call (StagingTargetPath req)])
             (StagingTargetPath req) = None"
  shows "NodeStageVolume d e req st =
           (None, st\<lparr>calls := calls st @ [IsLikelyNotMountPoint_call (StagingTargetPath req),
                                           ReadDir_call (StagingTargetPath req)]\<rparr>)"
proof -
  have l: "Release (VolumeId req) (insert (VolumeId req) (volumeLocks st)) = volumeLocks st"
    using assms(4) by (simp add: Release_def)
  have s: "stageLocked d e req (calls st) =
      (None, calls st @ [IsLikelyNotMountPoint_call (StagingTargetPath req),
                         ReadDir_call (StagingTargetPath req)])"
    by (simp add: stageLocked_def Let_def ensureMountPoint_mounted[OF assms(5,6)])
  show ?thesis
    using assms(1-4) by (simp add: NodeStageVolume_def Let_def TryAcquire_def s l)
qed

text \<open>The first request on the sample host mounts the target through the mount helper.\<close>

lemma NodeStageVolume_first_call:
  "fst (NodeStageVolume driver0 hostEnv request0 state0) = None \<and>
   list_ex isMountCall (calls (snd (NodeStageVolume driver0 hostEnv request0 state0))) \<and>
   volumeLocks (snd (NodeStageVolume driver0 hostEnv request0 state0)) = {}"
  by code_simp

theorem NodeStageVolume_already_mounted_witness:
  "NodeStageVolume driver0 hostEnv request0 (snd (NodeStageVolume driver0 hostEnv request0 state0)) =
     (None, (snd (NodeStageVolume driver0 hostEnv request0 state0))
              \<lparr>calls := calls (snd (NodeStageVolume driver0 hostEnv request0 state0)) @
                          [IsLikelyNotMountPoint_call (StagingTargetPath request0),
                           ReadDir_call (StagingTargetPath request0)]\<rparr>)"
proof -
  let ?st = "snd (NodeStageVolume driver0 hostEnv request0 state0)"
  have a1: "VolumeId request0 \<noteq> []" by (simp add: request0_def)
  have a2: "StagingTargetPath request0 \<noteq> []" by (simp add: request0_def)
  have a3: "VolumeCapability request0 \<noteq> None" by (simp add: request0_def)
  have a4: "VolumeId request0 \<notin> volumeLocks ?st"
    using NodeStageVolume_first_call by simp
  have a5: "isLikelyNotMountPoint hostEnv (calls ?st) (StagingTargetPath request0) = (False, None)"
    using NodeStageVolume_first_call by (simp add: hostEnv_def)
  have a6: "readDir hostEnv (calls ?st @ [IsLikelyNotMountPoint_call (StagingTargetPath request0)])
             (StagingTargetPath request0) = None"
    by (simp add: hostEnv_def)
  show ?thesis
    by (rule NodeStageVolume_already_mounted[OF a1 a2 a3 a4 a5 a6])
qed

text \<open>
  On any host, a mount point whose directory cannot be read and whose unmount succeeds
  makes \<open>ensureMountPoint\<close> return \<open>false\<close> together with the error of the read.
\<close>

lemma ensureMountPoint_unreadable:
  assumes "isLikelyNotMountPoint e h t = (False, None)"
      and "readDir e (h @ [IsLikelyNotMountPoint_call t]) t = Some rer"
      and "unmount e (h @ [IsLikelyNotMountPoint_call t, ReadDir_call t]) t = None"
  shows "ensureMountPoint e t h =
           ((False, Some rer),
            h @ [IsLikelyNotMountPoint_call t, ReadDir_call t, Unmount_call t])"
  using assms
  by (simp add: ensureMountPoint_def IsLikelyNotMountPoint_def ReadDir_def Unmount_def)

text \<open>
  Claim C5. The claim is that, when the target is reported as a mount point whose
  directory cannot be read, \<open>NodeStageVolume\<close> unmounts it and goes on to resolve the
  credentials and to call the mount executor. In the code \<open>ensureMountPoint\<close> unmounts
  the target and then returns the error of the failed read together with \<open>false\<close>, so
  \<open>NodeStageVolume\<close> returns the error \<open>Could not mount target\<close> at once: after the
  unmount no credential is resolved and no mount is attempted.
\<close>

theorem NodeStageVolume_broken_link_fails:
  "NodeStageVolume driver0 brokenLinkEnv request0 state0 =
     (Some (Status Internal ''Could not mount target''),
      state0\<lparr>calls := [IsLikelyNotMountPoint_call ''/staging/vol1'',
                       ReadDir_call ''/staging/vol1'',
                       Unmount_call ''/staging/vol1'']\<rparr>)"
  by code_simp

theorem NodeStageVolume_broken_link_fails_witness:
  "fst (NodeStageVolume driver0 brokenLinkEnv request0 state0) \<noteq> None \<and>
   \<not> list_ex isMountCall (calls (snd (NodeStageVolume driver0 brokenLinkEnv request0 state0))) \<and>
   \<not> list_ex isCredentialCall
       (calls (snd (NodeStageVolume driver0 brokenLinkEnv request0 state0)))"
  unfolding NodeStageVolume_broken_link_fails by simp

text \<open>
  Without the mock mount, the blobfuse branch hands the arguments and the environment to
  the mount executor once; it succeeds when the executor does, and otherwise its result
  is that of the failure handling applied to the executor's error and output.
\<close>

lemma stageFuse_failure_handling:
  assumes "\<not> enableBlobMockMount d"
  shows "\<exists>args env'. stageFuse d e vid fl sv t srv acc cont authEnv h =
    (case (if enableBlobfuseProxy d then mountBlobfuseWithProxy e args env' h
           else mountBlobfuseInsideDriver e args env' h) of
       ((output, None), h1) \<Rightarrow> (None, h1)
     | ((output, Some er), h1) \<Rightarrow> rollbackFailedMount e t (ErrMountFailed er output) h1)"
proof -
  obtain args where a: "args = fold (\<lambda>opt args. args @ '' '' @ opt)
     (appendDefaultMountOptions (mapVisit1 e) (mapVisit2 e)
        (let mountOptions = (if sv_ephemeralVol sv
                          then joinMountOptions e fl
                                 (Split (sv_ephemeralVolMountOptions sv) CHR '','')
                          else fl) in
         if sv_isHnsEnabled sv then joinMountOptions e mountOptions [''--use-adls=true'']
         else mountOptions)
        (''/mnt/'' @ vid @ ''#'' @ timeNowUnix e h) cont) t"
    by simp
  obtain env' where b: "env' = authEnv @ [''AZURE_STORAGE_ACCOUNT='' @ acc,
                               ''AZURE_STORAGE_BLOB_ENDPOINT='' @ srv]"
    by simp
  have "stageFuse d e vid fl sv t srv acc cont authEnv h =
    (case (if enableBlobfuseProxy d then mountBlobfuseWithProxy e args env' h
           else mountBlobfuseInsideDriver e args env' h) of
       ((output, None), h1) \<Rightarrow> (None, h1)
     | ((output, Some er), h1) \<Rightarrow> rollbackFailedMount e t (ErrMountFailed er output) h1)"
    unfolding stageFuse_def Let_def a b using assms
    by (simp split: prod.splits option.splits)
  then show ?thesis by blast
qed

text \<open>
  Claim C1, as stated: every request that fails after the target directory was created
  removes the directory before it returns the error. When the key vault cannot be
  reached, the request returns the error of the credential resolution after the
  directory was made, and \<open>os.Remove\<close> is never called. When the mount helper fails and
  the target is still a mount point after the unmount, the request returns the mount
  error, again without a call of \<open>os.Remove\<close>.
\<close>

theorem NodeStageVolume_failure_keeps_target_counterexample:
  "fst (NodeStageVolume driver0 hostEnv requestKeyVault state0) =
     Some (ErrOther ''key vault unreachable'') \<and>
   calls (snd (NodeStageVolume driver0 hostEnv requestKeyVault state0)) =
     [IsLikelyNotMountPoint_call ''/staging/vol1'', MakeDir_call ''/staging/vol1'',
      KeyVaultSecret_call ''https://kv.vault.azure.net'' [] []] \<and>
   fst (NodeStageVolume driver0 failingMountEnv request0 state0) =
     Some (ErrMountFailed (ErrOther ''exit status 1'') ''mount error'') \<and>
   MakeDir_call ''/staging/vol1'' \<in>
     set (calls (snd (NodeStageVolume driver0 failingMountEnv request0 state0))) \<and>
   Remove_call ''/staging/vol1'' \<notin>
     set (calls (snd (NodeStageVolume driver0 failingMountEnv request0 state0)))"
  by code_simp

text \<open>
  Claim C1, amended. When the mount executor fails, the handling of the failure in
  \<open>NodeStageVolume\<close> returns the mount error on every path. It removes the target
  directory, as its last call, when the target is found not to be a mount point, either
  at once or after a successful unmount and a second check; when a check or the
  unmount fails, or the target is still a mount point after the unmount, the directory
  is not removed. The result of \<open>os.Remove\<close> itself is not looked at.
\<close>

theorem rollbackFailedMount_removes_target:
  "fst (rollbackFailedMount e t err h) = Some err \<and>
   ((isLikelyNotMountPoint e h t = (True, None) \<or>
     (isLikelyNotMountPoint e h t = (False, None) \<and>
      unmount e (h @ [IsLikelyNotMountPoint_call t]) t = None \<and>
      isLikelyNotMountPoint e (h @ [IsLikelyNotMountPoint_call t, Unmount_call t]) t = (True, None)))
    \<longrightarrow> (\<exists>h'. snd (rollbackFailedMount e t err h) = h' @ [Remove_call t])) \<and>
   (\<not> (isLikelyNotMountPoint e h t = (True, None) \<or>
     (isLikelyNotMountPoint e h t = (False, None) \<and>
      unmount e (h @ [IsLikelyNotMountPoint_call t]) t = None \<and>
      isLikelyNotMountPoint e (h @ [IsLikelyNotMountPoint_call t, Unmount_call t]) t = (True, None)))
    \<longrightarrow> Remove_call t \<notin> set (drop (length h) (snd (rollbackFailedMount e t err h))))"
  by (auto simp: rollbackFailedMount_def IsLikelyNotMountPoint_def Unmount_def Remove_def Let_def
           split: prod.splits)

theorem rollbackFailedMount_removes_target_witness:
  "isLikelyNotMountPoint cleanFailureEnv [MakeDir_call ''/staging/vol1''] ''/staging/vol1'' =
     (True, None) \<and>
   fst (rollbackFailedMount cleanFailureEnv ''/staging/vol1'' (ErrOther ''mount failed'')
          [MakeDir_call ''/staging/vol1'']) = Some (ErrOther ''mount failed'') \<and>
   (\<exists>h'. snd (rollbackFailedMount cleanFailureEnv ''/staging/vol1'' (ErrOther ''mount failed'')
                [MakeDir_call ''/staging/vol1'']) = h' @ [Remove_call ''/staging/vol1''])"
proof -
  have c: "isLikelyNotMountPoint cleanFailureEnv [MakeDir_call ''/staging/vol1'']
             ''/staging/vol1'' = (True, None)"
    by code_simp
  show ?thesis
    using rollbackFailedMount_removes_target[where e = cleanFailureEnv and t = "''/staging/vol1''"
            and err = "ErrOther ''mount failed''" and h = "[MakeDir_call ''/staging/vol1'']"] c
    by blast
qed

text \<open>End to end, a failed mount that leaves nothing mounted ends with the removal.\<close>

lemma NodeStageVolume_clean_failure:
  "fst (NodeStageVolume driver0 cleanFailureEnv request0 state0) =
     Some (ErrMountFailed (ErrOther ''exit status 1'') ''mount error'') \<and>
   last (calls (snd (NodeStageVolume driver0 cleanFailureEnv request0 state0))) =
     Remove_call ''/staging/vol1''"
  by code_simp

end
